theory Spec2Isabelle
  imports Main
begin

section \<open>Go library functions the operands call\<close>

text \<open>
  A Go \<open>string\<close> is a sequence of bytes, here a \<open>char list\<close>. A Go \<open>error\<close> is a value:
  \<open>errors.New\<close> builds \<open>ErrorsNew\<close>, \<open>strconv\<close> reports \<open>NumError\<close> (the function and
  the offending input, with the cause \<open>ErrSyntax\<close>), and whatever the cluster client, the
  YAML decoder and the JSON patch return is a \<open>CollaboratorError\<close>.
\<close>

datatype error =
    ErrorsNew string
  | NumError string string
  | CollaboratorError string

text \<open>\<open>strconv.ParseBool\<close>: exactly twelve spellings are accepted.\<close>

definition ParseBool :: "string \<Rightarrow> error + bool" where
  "ParseBool str =
     (if str \<in> set [''1'', ''t'', ''T'', ''true'', ''TRUE'', ''True''] then Inr True
      else if str \<in> set [''0'', ''f'', ''F'', ''false'', ''FALSE'', ''False''] then Inr False
      else Inl (NumError ''ParseBool'' str))"

text \<open>
  \<open>strings.TrimSpace\<close> removes leading and trailing white space as \<open>unicode.IsSpace\<close>
  defines it. \<open>spaceRunes\<close> lists the UTF-8 encodings of those code points: the six ASCII
  ones, U+0085, U+00A0, U+1680, U+2000 to U+200A, U+2028, U+2029, U+202F, U+205F and U+3000.
\<close>

definition spaceRunes :: "string list" where
  "spaceRunes =
     [[CHR 0x09], [CHR 0x0A], [CHR 0x0B], [CHR 0x0C], [CHR 0x0D], [CHR 0x20],
      [CHR 0xC2, CHR 0x85], [CHR 0xC2, CHR 0xA0], [CHR 0xE1, CHR 0x9A, CHR 0x80]] @
     map (\<lambda>c. [CHR 0xE2, CHR 0x80, c])
       [CHR 0x80, CHR 0x81, CHR 0x82, CHR 0x83, CHR 0x84, CHR 0x85, CHR 0x86, CHR 0x87,
        CHR 0x88, CHR 0x89, CHR 0x8A, CHR 0xA8, CHR 0xA9, CHR 0xAF] @
     [[CHR 0xE2, CHR 0x81, CHR 0x9F], [CHR 0xE3, CHR 0x80, CHR 0x80]]"

text \<open>The rest of \<open>s\<close> after the first of the encodings \<open>ws\<close> that \<open>s\<close> starts with.\<close>

fun stripRune :: "string list \<Rightarrow> string \<Rightarrow> string option" where
  "stripRune [] s = None"
| "stripRune (w # ws) s =
     (if w \<noteq> [] \<and> take (length w) s = w then Some (drop (length w) s) else stripRune ws s)"

lemma stripRune_shorter: "stripRune ws s = Some t \<Longrightarrow> length t < length s"
proof (induction ws)
  case Nil
  then show ?case by simp
next
  case (Cons w ws)
  show ?case
  proof (cases "w \<noteq> [] \<and> take (length w) s = w")
    case True
    then have t: "t = drop (length w) s" using Cons.prems by simp
    have "length (take (length w) s) = length w" using True by simp
    then have "length w \<le> length s" by simp
    moreover have "0 < length w" using True by simp
    ultimately have "length s - length w < length s" by arith
    then show ?thesis using t by simp
  next
    case False
    then show ?thesis using Cons by auto
  qed
qed

function trimLeftRunes :: "string list \<Rightarrow> string \<Rightarrow> string" where
  "trimLeftRunes ws s =
     (case stripRune ws s of None \<Rightarrow> s | Some s' \<Rightarrow> trimLeftRunes ws s')"
  by pat_completeness auto
termination
  by (relation "measure (\<lambda>(ws, s). length s)") (auto dest: stripRune_shorter)

definition TrimSpace :: "string \<Rightarrow> string" where
  "TrimSpace s = rev (trimLeftRunes (map rev spaceRunes) (rev (trimLeftRunes spaceRunes s)))"

text \<open>\<open>strings.Join\<close>.\<close>

fun Join :: "string list \<Rightarrow> string \<Rightarrow> string" where
  "Join [] sep = []"
| "Join [x] sep = x"
| "Join (x # y # ys) sep = x @ sep @ Join (y # ys) sep"

section \<open>Constants of kubevirt.go\<close>

definition kubevirtDefaultNetworkInterfaceValue :: string where
  "kubevirtDefaultNetworkInterfaceValue = ''masquerade''"
definition FeatureGatesKey :: string where "FeatureGatesKey = ''feature-gates''"
definition MachineTypeKey :: string where "MachineTypeKey = ''machine-type''"
definition UseEmulationKey :: string where "UseEmulationKey = ''debug.useEmulation''"
definition MigrationsConfigKey :: string where "MigrationsConfigKey = ''migrations''"
definition NetworkInterfaceKey :: string where "NetworkInterfaceKey = ''default-network-interface''"
definition SmbiosConfigKey :: string where "SmbiosConfigKey = ''smbios''"
definition SELinuxLauncherTypeKey :: string where "SELinuxLauncherTypeKey = ''selinuxLauncherType''"
definition DefaultNetworkInterface :: string where "DefaultNetworkInterface = ''bridge''"

definition kvmEmulationEnvName :: string where "kvmEmulationEnvName = ''KVM_EMULATION''"
definition smbiosEnvName :: string where "smbiosEnvName = ''SMBIOS''"
definition machineTypeEnvName :: string where "machineTypeEnvName = ''MACHINETYPE''"

definition kvDataVolumesGate :: string where "kvDataVolumesGate = ''DataVolumes''"
definition kvSRIOVGate :: string where "kvSRIOVGate = ''SRIOV''"
definition kvLiveMigrationGate :: string where "kvLiveMigrationGate = ''LiveMigration''"
definition kvCPUManagerGate :: string where "kvCPUManagerGate = ''CPUManager''"
definition kvCPUNodeDiscoveryGate :: string where "kvCPUNodeDiscoveryGate = ''CPUNodeDiscovery''"
definition kvSidecarGate :: string where "kvSidecarGate = ''Sidecar''"
definition kvSnapshotGate :: string where "kvSnapshotGate = ''Snapshot''"

definition hardCodeKvFgs :: "string list" where
  "hardCodeKvFgs =
     [kvDataVolumesGate, kvSRIOVGate, kvLiveMigrationGate, kvCPUManagerGate,
      kvCPUNodeDiscoveryGate, kvSidecarGate, kvSnapshotGate]"

definition HotplugVolumesGate :: string where "HotplugVolumesGate = ''HotplugVolumes''"
definition kvWithHostPassthroughCPU :: string where
  "kvWithHostPassthroughCPU = ''WithHostPassthroughCPU''"
definition kvWithHostModelCPU :: string where "kvWithHostModelCPU = ''WithHostModelCPU''"
definition SRIOVLiveMigrationGate :: string where "SRIOVLiveMigrationGate = ''SRIOVLiveMigration''"
definition kvHypervStrictCheck :: string where "kvHypervStrictCheck = ''HypervStrictCheck''"
definition GPUGate :: string where "GPUGate = ''GPU''"
definition HostDevicesGate :: string where "HostDevicesGate = ''HostDevices''"
definition SELinuxLauncherType :: string where "SELinuxLauncherType = ''virt_launcher.process''"

lemmas gate_names =
  kvDataVolumesGate_def kvSRIOVGate_def kvLiveMigrationGate_def kvCPUManagerGate_def
  kvCPUNodeDiscoveryGate_def kvSidecarGate_def kvSnapshotGate_def HotplugVolumesGate_def
  kvWithHostPassthroughCPU_def kvWithHostModelCPU_def SRIOVLiveMigrationGate_def
  kvHypervStrictCheck_def GPUGate_def HostDevicesGate_def

lemmas key_names =
  FeatureGatesKey_def MachineTypeKey_def UseEmulationKey_def MigrationsConfigKey_def
  NetworkInterfaceKey_def SmbiosConfigKey_def SELinuxLauncherTypeKey_def

lemmas env_names = kvmEmulationEnvName_def smbiosEnvName_def machineTypeEnvName_def

section \<open>The feature-gate resolver\<close>

text \<open>
  The type \<open>hcov1beta1.HyperConvergedFeatureGates\<close> is declared outside kubevirt.go, which
  uses it only through its seven boolean accessors. The record holds what each accessor
  returns for the parent's feature-gate structure.
\<close>

record HyperConvergedFeatureGates =
  IsHotplugVolumesEnabled :: bool
  IsWithHostPassthroughCPUEnabled :: bool
  IsWithHostModelCPUEnabled :: bool
  IsSRIOVLiveMigrationEnabled :: bool
  IsHypervStrictCheckEnabled :: bool
  IsGPUAssignmentEnabled :: bool
  IsHostDevicesAssignmentEnabled :: bool

text \<open>
  \<open>featureGateChecks\<close> is a Go map from gate name to accessor; an accessor takes no argument,
  so the model stores its result.
\<close>

type_synonym featureGateChecks = "string \<rightharpoonup> bool"

definition getFeatureGateChecks :: "HyperConvergedFeatureGates \<Rightarrow> featureGateChecks" where
  "getFeatureGateChecks featureGates =
     [HotplugVolumesGate \<mapsto> IsHotplugVolumesEnabled featureGates,
      kvWithHostPassthroughCPU \<mapsto> IsWithHostPassthroughCPUEnabled featureGates,
      kvWithHostModelCPU \<mapsto> IsWithHostModelCPUEnabled featureGates,
      SRIOVLiveMigrationGate \<mapsto> IsSRIOVLiveMigrationEnabled featureGates,
      kvHypervStrictCheck \<mapsto> IsHypervStrictCheckEnabled featureGates,
      GPUGate \<mapsto> IsGPUAssignmentEnabled featureGates,
      HostDevicesGate \<mapsto> IsHostDevicesAssignmentEnabled featureGates]"

text \<open>
  Go visits the keys of a map in an order it does not fix. The model takes that order as
  an argument: \<open>rangeOrderOf m order\<close> says that \<open>order\<close> lists every key of \<open>m\<close> once.
\<close>

definition rangeOrderOf :: "('k \<rightharpoonup> 'v) \<Rightarrow> 'k list \<Rightarrow> bool" where
  "rangeOrderOf m order \<longleftrightarrow> distinct order \<and> set order = dom m"

text \<open>The loop \<open>for gate, check := range checks { if check() { res = append(res, gate) } }\<close>.\<close>

fun rangeChecks :: "featureGateChecks \<Rightarrow> string list \<Rightarrow> string list \<Rightarrow> string list" where
  "rangeChecks checks [] res = res"
| "rangeChecks checks (gate # rest) res =
     (case checks gate of
        None \<Rightarrow> rangeChecks checks rest res
      | Some check \<Rightarrow> rangeChecks checks rest (if check then res @ [gate] else res))"

definition getKvFeatureGateList :: "string list \<Rightarrow> HyperConvergedFeatureGates \<Rightarrow> string list" where
  "getKvFeatureGateList order fgs =
     (let checks = getFeatureGateChecks fgs;
          res = [] @ hardCodeKvFgs
      in rangeChecks checks order res)"

section \<open>The data model\<close>

text \<open>
  Go structs are records. A pointer, a map or a slice field is an \<open>option\<close>: \<open>None\<close> is
  \<open>nil\<close>, which \<open>reflect.DeepEqual\<close> tells apart from an empty map or slice, so that
  \<open>reflect.DeepEqual\<close> is the equality of HOL on these types. Fields that several structs
  share carry a prefix naming their struct. Types of the Kubernetes and KubeVirt APIs are
  cut down to the fields kubevirt.go reads or writes; \<open>Affinity\<close> and \<open>Toleration\<close> are
  only ever copied and stay opaque.
\<close>

typedecl Affinity
typedecl Toleration

record ObjectMeta =
  Name :: string
  Namespace :: string
  Labels :: "(string \<rightharpoonup> string) option"
  Annotations :: "(string \<rightharpoonup> string) option"
  ResourceVersion :: string

record TypeMeta =
  APIVersion :: string
  Kind :: string

text \<open>
  The node placement of the parent (\<open>sdkapi.NodePlacement\<close>) and of KubeVirt
  (\<open>kubevirtv1.NodePlacement\<close>) have the same three fields.
\<close>

record NodePlacement =
  NodeSelector :: "(string \<rightharpoonup> string) option"
  Affinity :: "Affinity option"
  Tolerations :: "Toleration list option"

record HyperConvergedConfig =
  HC_NodePlacement :: "NodePlacement option"

record HyperConvergedSpec =
  HC_Infra :: HyperConvergedConfig
  HC_Workloads :: HyperConvergedConfig
  HC_FeatureGates :: HyperConvergedFeatureGates

record HyperConverged =
  HC_ObjectMeta :: ObjectMeta
  HC_Spec :: HyperConvergedSpec

record ComponentConfig =
  KV_NodePlacement :: "NodePlacement option"

record DeveloperConfiguration =
  FeatureGates :: "string list option"
  UseEmulation :: bool

record NetworkConfiguration =
  NetworkInterface :: string

record SMBiosConfiguration =
  Manufacturer :: string
  Product :: string
  Version :: string
  Sku :: string
  Family :: string

record KubeVirtConfiguration =
  Cfg_DeveloperConfiguration :: "DeveloperConfiguration option"
  Cfg_SELinuxLauncherType :: string
  Cfg_NetworkConfiguration :: "NetworkConfiguration option"
  Cfg_SMBIOSConfig :: "SMBiosConfiguration option"
  Cfg_MachineType :: string

record KubeVirtSpec =
  ImageTag :: string
  ImageRegistry :: string
  UninstallStrategy :: string
  KV_Infra :: "ComponentConfig option"
  KV_Workloads :: "ComponentConfig option"
  Configuration :: KubeVirtConfiguration

record KubeVirtStatus =
  ObservedKubeVirtVersion :: string

record KubeVirt =
  KV_ObjectMeta :: ObjectMeta
  KV_Spec :: KubeVirtSpec
  KV_Status :: KubeVirtStatus

record ConfigMap =
  CM_ObjectMeta :: ObjectMeta
  Data :: "(string \<rightharpoonup> string) option"

text \<open>\<open>Value\<close> is an \<open>int32\<close>; the code only stores a constant in it and compares it.\<close>

record PriorityClass =
  PC_TypeMeta :: TypeMeta
  PC_ObjectMeta :: ObjectMeta
  Value :: int
  GlobalDefault :: bool
  Description :: string

text \<open>
  A \<open>runtime.Object\<close> is one of the kinds below; the type assertions of the hooks are
  pattern matches on it. \<open>NilObject\<close> is the nil interface value.
\<close>

datatype Object =
    KubeVirtObject KubeVirt
  | ConfigMapObject ConfigMap
  | PriorityClassObject PriorityClass
  | NilObject

text \<open>The two flags of \<open>common.HcoRequest\<close> that the hooks read.\<close>

record HcoRequest =
  HCOTriggered :: bool
  UpgradeMode :: bool

subsection \<open>Collaborators\<close>

text \<open>
  What kubevirt.go consumes from outside: the process environment (\<open>os.LookupEnv\<close>), the
  order in which \<open>range\<close> visits the feature-gate checks, the YAML-or-JSON decoder of the
  SMBIOS payload (the structure it filled and its error), and three functions of this
  package defined in other files: \<open>applyPatchToSpec\<close> for the annotation
  \<open>common.JSONPatchKVAnnotationName\<close> (it changes the object in place or fails),
  \<open>getLabels\<close> for the component \<open>hcoutil.AppComponentCompute\<close>, and \<open>getNamespace\<close>.
\<close>

record collaborators =
  LookupEnv :: "string \<Rightarrow> string option"
  rangeOrder :: "string list"
  DecodeSmbios :: "string \<Rightarrow> SMBiosConfiguration \<times> error option"
  applyPatchToSpec :: "HyperConverged \<Rightarrow> KubeVirt \<Rightarrow> error + KubeVirt"
  getLabels :: "HyperConverged \<Rightarrow> (string \<rightharpoonup> string) option"
  getNamespace :: "string \<Rightarrow> string list \<Rightarrow> string"

text \<open>
  The cluster client answers each call with an error or \<open>nil\<close>. A hook returns the calls
  it issued in order, the live object as it left it, and its three results.
\<close>

datatype ClientCall = Update Object | Delete Object | Create Object

type_synonym Client = "ClientCall \<Rightarrow> error option"

record Outcome =
  calls :: "ClientCall list"
  live :: Object
  result :: "bool \<times> bool \<times> error option"

section \<open>Desired-state builders\<close>

text \<open>Two constants of the KubeVirt API.\<close>

definition MasqueradeInterface :: string where "MasqueradeInterface = ''masquerade''"
definition KubeVirtUninstallStrategyBlockUninstallIfWorkloadsExist :: string where
  "KubeVirtUninstallStrategyBlockUninstallIfWorkloadsExist = ''BlockUninstallIfWorkloadsExist''"

definition getKVDevConfig :: "collaborators \<Rightarrow> HyperConverged \<Rightarrow> error + DeveloperConfiguration option" where
  "getKVDevConfig c hc =
     (let fgs = getKvFeatureGateList (rangeOrder c) (HC_FeatureGates (HC_Spec hc));
          parsed =
            (case LookupEnv c kvmEmulationEnvName of
               None \<Rightarrow> Inr False
             | Some kvmEmulationStr \<Rightarrow>
                 (let kvmEmulationStr = TrimSpace kvmEmulationStr
                  in if kvmEmulationStr \<noteq> [] then ParseBool kvmEmulationStr else Inr False))
      in case parsed of
           Inl err \<Rightarrow> Inl err
         | Inr kvmEmulation \<Rightarrow>
             if length fgs > 0 \<or> kvmEmulation
             then Inr (Some \<lparr>FeatureGates = Some fgs, UseEmulation = kvmEmulation\<rparr>)
             else Inr None)"

text \<open>
  \<open>getKVConfig\<close> has three return statements: \<open>nil, err\<close> and \<open>config, err\<close> are
  \<open>Inl (err, None)\<close> and \<open>Inl (err, Some config)\<close>; \<open>config, nil\<close> is \<open>Inr config\<close>.
\<close>

definition getKVConfig :: "collaborators \<Rightarrow> HyperConverged \<Rightarrow> error \<times> KubeVirtConfiguration option + KubeVirtConfiguration" where
  "getKVConfig c hc =
     (case getKVDevConfig c hc of
        Inl err \<Rightarrow> Inl (err, None)
      | Inr devConfig \<Rightarrow>
          (let config = \<lparr>Cfg_DeveloperConfiguration = devConfig,
                         Cfg_SELinuxLauncherType = SELinuxLauncherType,
                         Cfg_NetworkConfiguration = Some \<lparr>NetworkInterface = MasqueradeInterface\<rparr>,
                         Cfg_SMBIOSConfig = None,
                         Cfg_MachineType = []\<rparr>;
               decoded =
                 (case LookupEnv c smbiosEnvName of
                    None \<Rightarrow> (config, None)
                  | Some smbiosConfig \<Rightarrow>
                      (let smbiosConfig = TrimSpace smbiosConfig
                       in if smbiosConfig \<noteq> []
                          then (config\<lparr>Cfg_SMBIOSConfig := Some (fst (DecodeSmbios c smbiosConfig))\<rparr>,
                                snd (DecodeSmbios c smbiosConfig))
                          else (config, None)))
           in case snd decoded of
                Some err \<Rightarrow> Inl (err, Some (fst decoded))
              | None \<Rightarrow>
                  (case LookupEnv c machineTypeEnvName of
                     None \<Rightarrow> Inr (fst decoded)
                   | Some val \<Rightarrow>
                       (let val = TrimSpace val
                        in if val \<noteq> [] then Inr ((fst decoded)\<lparr>Cfg_MachineType := val\<rparr>)
                           else Inr (fst decoded)))))"

definition NewKubeVirtWithNameOnly :: "collaborators \<Rightarrow> HyperConverged \<Rightarrow> string list \<Rightarrow> KubeVirt" where
  "NewKubeVirtWithNameOnly c hc opts =
     \<lparr>KV_ObjectMeta =
        \<lparr>Name = ''kubevirt-'' @ Name (HC_ObjectMeta hc),
         Namespace = getNamespace c (Namespace (HC_ObjectMeta hc)) opts,
         Labels = getLabels c hc,
         Annotations = None,
         ResourceVersion = []\<rparr>,
      KV_Spec =
        \<lparr>ImageTag = [], ImageRegistry = [], UninstallStrategy = [],
         KV_Infra = None, KV_Workloads = None,
         Configuration =
           \<lparr>Cfg_DeveloperConfiguration = None, Cfg_SELinuxLauncherType = [],
            Cfg_NetworkConfiguration = None, Cfg_SMBIOSConfig = None, Cfg_MachineType = []\<rparr>\<rparr>,
      KV_Status = \<lparr>ObservedKubeVirtVersion = []\<rparr>\<rparr>"

text \<open>
  The loop over the tolerations appends to a nil slice, so no toleration leaves it nil;
  the node selector is copied into a fresh map, empty or not.
\<close>

definition hcoConfig2KvConfig :: "HyperConvergedConfig \<Rightarrow> ComponentConfig option" where
  "hcoConfig2KvConfig hcoConfig =
     (case HC_NodePlacement hcoConfig of
        Some np \<Rightarrow>
          Some \<lparr>KV_NodePlacement =
            Some \<lparr>NodeSelector = (case NodeSelector np of None \<Rightarrow> None | Some sel \<Rightarrow> Some sel),
                  Affinity = (case Affinity np of None \<Rightarrow> None | Some a \<Rightarrow> Some a),
                  Tolerations =
                    (case Tolerations np of
                       None \<Rightarrow> None
                     | Some ts \<Rightarrow> if ts = [] then None else Some ts)\<rparr>\<rparr>
      | None \<Rightarrow> None)"

definition NewKubeVirt :: "collaborators \<Rightarrow> HyperConverged \<Rightarrow> string list \<Rightarrow> error + KubeVirt" where
  "NewKubeVirt c hc opts =
     (case getKVConfig c hc of
        Inl (err, _) \<Rightarrow> Inl err
      | Inr config \<Rightarrow>
          (let spec = \<lparr>ImageTag = [], ImageRegistry = [],
                       UninstallStrategy = KubeVirtUninstallStrategyBlockUninstallIfWorkloadsExist,
                       KV_Infra = hcoConfig2KvConfig (HC_Infra (HC_Spec hc)),
                       KV_Workloads = hcoConfig2KvConfig (HC_Workloads (HC_Spec hc)),
                       Configuration = config\<rparr>;
               kv = (NewKubeVirtWithNameOnly c hc opts)\<lparr>KV_Spec := spec\<rparr>
           in case applyPatchToSpec c hc kv of
                Inl err \<Rightarrow> Inl err
              | Inr kv \<Rightarrow> Inr kv))"

definition NewKubeVirtConfigForCR :: "collaborators \<Rightarrow> HyperConverged \<Rightarrow> string \<Rightarrow> ConfigMap" where
  "NewKubeVirtConfigForCR c cr namespace =
     (let fgs = getKvFeatureGateList (rangeOrder c) (HC_FeatureGates (HC_Spec cr));
          featureGates = Join fgs '','';
          data = [FeatureGatesKey \<mapsto> featureGates,
                  SELinuxLauncherTypeKey \<mapsto> ''virt_launcher.process'',
                  NetworkInterfaceKey \<mapsto> kubevirtDefaultNetworkInterfaceValue];
          data = (case LookupEnv c smbiosEnvName of
                    Some val \<Rightarrow> if val \<noteq> [] then data(SmbiosConfigKey \<mapsto> val) else data
                  | None \<Rightarrow> data);
          data = (case LookupEnv c machineTypeEnvName of
                    Some val \<Rightarrow> if val \<noteq> [] then data(MachineTypeKey \<mapsto> val) else data
                  | None \<Rightarrow> data);
          data = (case LookupEnv c kvmEmulationEnvName of
                    Some val \<Rightarrow> if val \<noteq> [] then data(UseEmulationKey \<mapsto> val) else data
                  | None \<Rightarrow> data)
      in \<lparr>CM_ObjectMeta =
            \<lparr>Name = ''kubevirt-config'', Namespace = namespace, Labels = getLabels c cr,
             Annotations = None, ResourceVersion = []\<rparr>,
          Data = Some data\<rparr>)"


section \<open>Operand hooks\<close>

text \<open>
  The hooks write to the request's logger; the log is not part of the model. An object
  passed to a hook is taken to be a non-nil pointer, or the nil interface.
\<close>

subsection \<open>Go maps and labels\<close>

text \<open>
  Reading a nil map gives the zero value, as reading a missing key does; deleting from a
  nil map does nothing; assigning to an entry of a nil map panics. \<open>mapIndex\<close> is
  \<open>m[k]\<close>, \<open>mapEntry\<close> is the two results of \<open>v, ok := m[k]\<close> (\<open>Some v\<close> when \<open>ok\<close>) and
  \<open>mapHas\<close> is its \<open>ok\<close> alone.
\<close>

datatype panic = AssignToNilMap

definition mapIndex :: "(string \<rightharpoonup> string) option \<Rightarrow> string \<Rightarrow> string" where
  "mapIndex m k = (case m of None \<Rightarrow> [] | Some d \<Rightarrow> (case d k of None \<Rightarrow> [] | Some v \<Rightarrow> v))"

definition mapEntry :: "(string \<rightharpoonup> string) option \<Rightarrow> string \<Rightarrow> string option" where
  "mapEntry m k = (case m of None \<Rightarrow> None | Some d \<Rightarrow> d k)"

definition mapHas :: "(string \<rightharpoonup> string) option \<Rightarrow> string \<Rightarrow> bool" where
  "mapHas m k = (case m of None \<Rightarrow> False | Some d \<Rightarrow> d k \<noteq> None)"

definition mapAssign :: "(string \<rightharpoonup> string) option \<Rightarrow> string \<Rightarrow> string \<Rightarrow> panic + (string \<rightharpoonup> string) option" where
  "mapAssign m k v = (case m of None \<Rightarrow> Inl AssignToNilMap | Some d \<Rightarrow> Inr (Some (d(k \<mapsto> v))))"

definition mapDelete :: "(string \<rightharpoonup> string) option \<Rightarrow> string \<Rightarrow> (string \<rightharpoonup> string) option" where
  "mapDelete m k = (case m of None \<Rightarrow> None | Some d \<Rightarrow> Some (d(k := None)))"

text \<open>
  Modelled from the spec: \<open>util.DeepCopyLabels\<close> is defined in pkg/util, outside kubevirt.go.
  The spec has the hooks copy the labels from desired into live, so the target's labels
  become a copy of the source's and nothing else of the target changes.
\<close>

definition DeepCopyLabels :: "ObjectMeta \<Rightarrow> ObjectMeta \<Rightarrow> ObjectMeta" where
  "DeepCopyLabels src tgt = tgt\<lparr>Labels := Labels src\<rparr>"

subsection \<open>KubeVirt\<close>

record kubevirtHooks =
  cache :: "KubeVirt option"

definition kubevirtHooks_getFullCr :: "collaborators \<Rightarrow> kubevirtHooks \<Rightarrow> HyperConverged \<Rightarrow> (error + KubeVirt) \<times> kubevirtHooks" where
  "kubevirtHooks_getFullCr c h hc =
     (case cache h of
        None \<Rightarrow>
          (case NewKubeVirt c hc [] of
             Inl err \<Rightarrow> (Inl err, h)
           | Inr kv \<Rightarrow> (Inr kv, h\<lparr>cache := Some kv\<rparr>))
      | Some kv \<Rightarrow> (Inr kv, h))"

definition kubevirtHooks_reset :: "kubevirtHooks \<Rightarrow> kubevirtHooks" where
  "kubevirtHooks_reset h = h\<lparr>cache := None\<rparr>"

definition kubevirtHooks_updateCr :: "HcoRequest \<Rightarrow> Client \<Rightarrow> Object \<Rightarrow> Object \<Rightarrow> Outcome" where
  "kubevirtHooks_updateCr req Client exists required =
     (case (required, exists) of
        (KubeVirtObject virt, KubeVirtObject found) \<Rightarrow>
          if KV_Spec found \<noteq> KV_Spec virt \<or>
             Labels (KV_ObjectMeta found) \<noteq> Labels (KV_ObjectMeta virt)
          then
            (let found = found\<lparr>KV_ObjectMeta := DeepCopyLabels (KV_ObjectMeta virt) (KV_ObjectMeta found)\<rparr>;
                 found = found\<lparr>KV_Spec := KV_Spec virt\<rparr>;
                 err = Client (Update (KubeVirtObject found))
             in case err of
                  Some e \<Rightarrow>
                    \<lparr>calls = [Update (KubeVirtObject found)], live = KubeVirtObject found,
                     result = (False, False, Some e)\<rparr>
                | None \<Rightarrow>
                    \<lparr>calls = [Update (KubeVirtObject found)], live = KubeVirtObject found,
                     result = (True, \<not> HCOTriggered req, None)\<rparr>)
          else \<lparr>calls = [], live = exists, result = (False, False, None)\<rparr>
      | _ \<Rightarrow>
          \<lparr>calls = [], live = exists,
           result = (False, False, Some (ErrorsNew ''can't convert to KubeVirt''))\<rparr>)"

subsection \<open>KubeVirt config map\<close>

definition updateData :: "ConfigMap \<Rightarrow> ConfigMap \<Rightarrow> panic + ConfigMap \<times> bool" where
  "updateData found required =
     (if mapIndex (Data found) FeatureGatesKey \<noteq> mapIndex (Data required) FeatureGatesKey
      then (case mapAssign (Data found) FeatureGatesKey (mapIndex (Data required) FeatureGatesKey) of
              Inl p \<Rightarrow> Inl p
            | Inr d \<Rightarrow> Inr (found\<lparr>Data := d\<rparr>, True))
      else Inr (found, False))"

definition updateKvConfigMap :: "HcoRequest \<Rightarrow> Client \<Rightarrow> ConfigMap \<Rightarrow> Outcome" where
  "updateKvConfigMap req Client found =
     (case Client (Update (ConfigMapObject found)) of
        Some err \<Rightarrow>
          \<lparr>calls = [Update (ConfigMapObject found)], live = ConfigMapObject found,
           result = (False, False, Some err)\<rparr>
      | None \<Rightarrow>
          \<lparr>calls = [Update (ConfigMapObject found)], live = ConfigMapObject found,
           result = (True, False, None)\<rparr>)"

definition forceDefaultValues :: "HcoRequest \<Rightarrow> ConfigMap \<Rightarrow> ConfigMap \<Rightarrow> string \<Rightarrow> panic + ConfigMap \<times> bool" where
  "forceDefaultValues req found kubevirtConfig k =
     (if mapIndex (Data found) k \<noteq> mapIndex (Data kubevirtConfig) k
      then (case mapAssign (Data found) k (mapIndex (Data kubevirtConfig) k) of
              Inl p \<Rightarrow> Inl p
            | Inr d \<Rightarrow> Inr (found\<lparr>Data := d\<rparr>, True))
      else Inr (found, False))"

text \<open>
  The loop of \<open>forceDefaultKeys\<close> over its four keys:
  \<open>changed = h.forceDefaultValues(req, found, kubevirtConfig, k) || changed\<close>.
\<close>

fun forceDefaultKeysLoop :: "HcoRequest \<Rightarrow> ConfigMap \<Rightarrow> ConfigMap \<Rightarrow> string list \<Rightarrow> bool \<Rightarrow> panic + ConfigMap \<times> bool" where
  "forceDefaultKeysLoop req found kubevirtConfig [] changed = Inr (found, changed)"
| "forceDefaultKeysLoop req found kubevirtConfig (k # ks) changed =
     (case forceDefaultValues req found kubevirtConfig k of
        Inl p \<Rightarrow> Inl p
      | Inr (found, forced) \<Rightarrow> forceDefaultKeysLoop req found kubevirtConfig ks (forced \<or> changed))"

definition forceDefaultKeys :: "HcoRequest \<Rightarrow> ConfigMap \<Rightarrow> ConfigMap \<Rightarrow> panic + ConfigMap \<times> bool" where
  "forceDefaultKeys req found kubevirtConfig =
     forceDefaultKeysLoop req found kubevirtConfig
       [SmbiosConfigKey, MachineTypeKey, SELinuxLauncherTypeKey, UseEmulationKey] False"

definition removeOldKeys :: "HcoRequest \<Rightarrow> ConfigMap \<Rightarrow> ConfigMap \<times> bool" where
  "removeOldKeys req found =
     (if mapHas (Data found) MigrationsConfigKey
      then (found\<lparr>Data := mapDelete (Data found) MigrationsConfigKey\<rparr>, True)
      else (found, False))"

definition updateDataOnUpgrade :: "HcoRequest \<Rightarrow> ConfigMap \<Rightarrow> ConfigMap \<Rightarrow> panic + ConfigMap \<times> bool" where
  "updateDataOnUpgrade req found kubevirtConfig =
     (case forceDefaultKeys req found kubevirtConfig of
        Inl p \<Rightarrow> Inl p
      | Inr (found, forced) \<Rightarrow>
          (let changed = (if forced then True else False);
               (found, removed) = removeOldKeys req found;
               changed = (if removed then True else changed)
           in Inr (found, changed)))"

definition kvConfigHooks_updateCr :: "HcoRequest \<Rightarrow> Client \<Rightarrow> Object \<Rightarrow> Object \<Rightarrow> panic + Outcome" where
  "kvConfigHooks_updateCr req Client exists required =
     (case (required, exists) of
        (ConfigMapObject kubevirtConfig, ConfigMapObject found) \<Rightarrow>
          (case (if UpgradeMode req then updateDataOnUpgrade req found kubevirtConfig
                 else Inr (found, False)) of
             Inl p \<Rightarrow> Inl p
           | Inr (found, changed) \<Rightarrow>
               (case updateData found kubevirtConfig of
                  Inl p \<Rightarrow> Inl p
                | Inr (found, updated) \<Rightarrow>
                    (let changed = (updated \<or> changed);
                         labelsDiffer =
                           (Labels (CM_ObjectMeta found) \<noteq> Labels (CM_ObjectMeta kubevirtConfig));
                         found = (if labelsDiffer
                                  then found\<lparr>CM_ObjectMeta :=
                                         DeepCopyLabels (CM_ObjectMeta kubevirtConfig) (CM_ObjectMeta found)\<rparr>
                                  else found);
                         changed = (if labelsDiffer then True else changed)
                     in if changed then Inr (updateKvConfigMap req Client found)
                        else Inr \<lparr>calls = [], live = ConfigMapObject found,
                                  result = (False, False, None)\<rparr>)))
      | _ \<Rightarrow>
          Inr \<lparr>calls = [], live = exists,
               result = (False, False, Some (ErrorsNew ''can't convert to ConfigMap''))\<rparr>)"

subsection \<open>KubeVirt priority class\<close>

definition kvPriorityClassHooks_updateCr :: "HcoRequest \<Rightarrow> Client \<Rightarrow> Object \<Rightarrow> Object \<Rightarrow> Outcome" where
  "kvPriorityClassHooks_updateCr req Client exists required =
     (case (required, exists) of
        (PriorityClassObject pc, PriorityClassObject found) \<Rightarrow>
          if Name (PC_ObjectMeta pc) = Name (PC_ObjectMeta found) \<and> Value pc = Value found \<and>
             Description pc = Description found \<and>
             Labels (PC_ObjectMeta pc) = Labels (PC_ObjectMeta found)
          then \<lparr>calls = [], live = exists, result = (False, False, None)\<rparr>
          else
            (case Client (Delete (PriorityClassObject found)) of
               Some err \<Rightarrow>
                 \<lparr>calls = [Delete (PriorityClassObject found)], live = exists,
                  result = (False, False, Some err)\<rparr>
             | None \<Rightarrow>
                 (case Client (Create (PriorityClassObject pc)) of
                    Some err \<Rightarrow>
                      \<lparr>calls = [Delete (PriorityClassObject found), Create (PriorityClassObject pc)],
                       live = exists, result = (False, False, Some err)\<rparr>
                  | None \<Rightarrow>
                      \<lparr>calls = [Delete (PriorityClassObject found), Create (PriorityClassObject pc)],
                       live = exists, result = (True, \<not> HCOTriggered req, None)\<rparr>))
      | _ \<Rightarrow>
          \<lparr>calls = [], live = exists,
           result = (False, False, Some (ErrorsNew ''can't convert to PriorityClass''))\<rparr>)"

section \<open>Inputs for the concrete checks\<close>

text \<open>
  A parent record with a given feature-gate structure and no node placement; the seven
  gate names in the order of the source; and collaborators for a given environment and
  iteration order: no JSON patch annotation (the patch leaves the object as it is), labels
  naming the parent, the parent's namespace, and a decoder that rejects every payload.
\<close>

definition noGates :: HyperConvergedFeatureGates where
  "noGates =
     \<lparr>IsHotplugVolumesEnabled = False, IsWithHostPassthroughCPUEnabled = False,
      IsWithHostModelCPUEnabled = False, IsSRIOVLiveMigrationEnabled = False,
      IsHypervStrictCheckEnabled = False, IsGPUAssignmentEnabled = False,
      IsHostDevicesAssignmentEnabled = False\<rparr>"

definition sourceOrder :: "string list" where
  "sourceOrder =
     [HotplugVolumesGate, kvWithHostPassthroughCPU, kvWithHostModelCPU, SRIOVLiveMigrationGate,
      kvHypervStrictCheck, GPUGate, HostDevicesGate]"

definition parentOf :: "HyperConvergedFeatureGates \<Rightarrow> HyperConverged" where
  "parentOf fgs =
     \<lparr>HC_ObjectMeta =
        \<lparr>Name = ''kubevirt-hyperconverged'', Namespace = ''kubevirt-hyperconverged'',
         Labels = None, Annotations = None, ResourceVersion = ''1''\<rparr>,
      HC_Spec =
        \<lparr>HC_Infra = \<lparr>HC_NodePlacement = None\<rparr>, HC_Workloads = \<lparr>HC_NodePlacement = None\<rparr>,
         HC_FeatureGates = fgs\<rparr>\<rparr>"

definition environment :: "(string \<rightharpoonup> string) \<Rightarrow> string list \<Rightarrow> collaborators" where
  "environment env order =
     \<lparr>LookupEnv = env,
      rangeOrder = order,
      DecodeSmbios = (\<lambda>payload.
        (\<lparr>Manufacturer = [], Product = [], Version = [], Sku = [], Family = []\<rparr>,
         Some (CollaboratorError payload))),
      applyPatchToSpec = (\<lambda>hc kv. Inr kv),
      getLabels = (\<lambda>hc. Some [''app'' \<mapsto> Name (HC_ObjectMeta hc)]),
      getNamespace = (\<lambda>ns opts. ns)\<rparr>"

text \<open>
  A live KubeVirt that reports a version and has an empty spec, and a desired one that
  differs from it in the uninstall strategy of its spec; a client that refuses every call
  and one that accepts every call; the config map built for the parent above, and a live
  config map whose feature gates and launcher type were edited and which still has the
  deprecated migrations key.
\<close>

definition liveKubeVirt :: KubeVirt where
  "liveKubeVirt =
     (NewKubeVirtWithNameOnly (environment Map.empty sourceOrder) (parentOf noGates) [])
       \<lparr>KV_Status := \<lparr>ObservedKubeVirtVersion = ''v0.36.0''\<rparr>\<rparr>"

definition desiredKubeVirt :: KubeVirt where
  "desiredKubeVirt =
     (NewKubeVirtWithNameOnly (environment Map.empty sourceOrder) (parentOf noGates) [])
       \<lparr>KV_Spec :=
          (KV_Spec (NewKubeVirtWithNameOnly (environment Map.empty sourceOrder) (parentOf noGates) []))
            \<lparr>UninstallStrategy := KubeVirtUninstallStrategyBlockUninstallIfWorkloadsExist\<rparr>\<rparr>"

definition conflictClient :: Client where
  "conflictClient = (\<lambda>call. Some (CollaboratorError ''conflict''))"

definition acceptingClient :: Client where
  "acceptingClient = (\<lambda>call. None)"

definition desiredConfigMap :: ConfigMap where
  "desiredConfigMap =
     NewKubeVirtConfigForCR (environment Map.empty sourceOrder) (parentOf noGates)
       ''kubevirt-hyperconverged''"

definition liveConfigMap :: ConfigMap where
  "liveConfigMap =
     desiredConfigMap
       \<lparr>Data := Some [FeatureGatesKey \<mapsto> ''DataVolumes'',
                      SELinuxLauncherTypeKey \<mapsto> ''spc_t'',
                      MigrationsConfigKey \<mapsto> ''parallelMigrationsPerCluster: 5'']\<rparr>"

section \<open>The feature-gate resolver: properties\<close>

lemma rangeChecks_filter:
  "rangeChecks checks order res = res @ filter (\<lambda>gate. checks gate = Some True) order"
  by (induction order arbitrary: res) (auto split: option.splits)

lemma getKvFeatureGateList_eq:
  "getKvFeatureGateList order fgs =
     hardCodeKvFgs @ filter (\<lambda>gate. getFeatureGateChecks fgs gate = Some True) order"
  by (simp add: getKvFeatureGateList_def rangeChecks_filter)

lemma getFeatureGateChecks_True:
  "getFeatureGateChecks fgs gate = Some True \<longleftrightarrow>
     gate = HotplugVolumesGate \<and> IsHotplugVolumesEnabled fgs \<or>
     gate = kvWithHostPassthroughCPU \<and> IsWithHostPassthroughCPUEnabled fgs \<or>
     gate = kvWithHostModelCPU \<and> IsWithHostModelCPUEnabled fgs \<or>
     gate = SRIOVLiveMigrationGate \<and> IsSRIOVLiveMigrationEnabled fgs \<or>
     gate = kvHypervStrictCheck \<and> IsHypervStrictCheckEnabled fgs \<or>
     gate = GPUGate \<and> IsGPUAssignmentEnabled fgs \<or>
     gate = HostDevicesGate \<and> IsHostDevicesAssignmentEnabled fgs"
  by (auto simp: getFeatureGateChecks_def gate_names)

lemma dom_getFeatureGateChecks: "dom (getFeatureGateChecks fgs) = set sourceOrder"
  by (auto simp: getFeatureGateChecks_def sourceOrder_def)

text \<open>
  Claim C3. Whatever the feature gates of the parent and whatever order the map of checks
  is visited in, the list that \<open>getKvFeatureGateList\<close> returns starts with the hard-coded
  gates in their order, and the rest of it holds, once each, exactly the conditional gates
  whose accessor is true.
\<close>

theorem getKvFeatureGateList_fixed_then_enabled:
  assumes "rangeOrderOf (getFeatureGateChecks fgs) order"
  shows "take (length hardCodeKvFgs) (getKvFeatureGateList order fgs) = hardCodeKvFgs \<and>
         distinct (drop (length hardCodeKvFgs) (getKvFeatureGateList order fgs)) \<and>
         set (drop (length hardCodeKvFgs) (getKvFeatureGateList order fgs)) =
           {gate.
              gate = HotplugVolumesGate \<and> IsHotplugVolumesEnabled fgs \<or>
              gate = kvWithHostPassthroughCPU \<and> IsWithHostPassthroughCPUEnabled fgs \<or>
              gate = kvWithHostModelCPU \<and> IsWithHostModelCPUEnabled fgs \<or>
              gate = SRIOVLiveMigrationGate \<and> IsSRIOVLiveMigrationEnabled fgs \<or>
              gate = kvHypervStrictCheck \<and> IsHypervStrictCheckEnabled fgs \<or>
              gate = GPUGate \<and> IsGPUAssignmentEnabled fgs \<or>
              gate = HostDevicesGate \<and> IsHostDevicesAssignmentEnabled fgs}"
proof -
  have d: "distinct order" and s: "set order = dom (getFeatureGateChecks fgs)"
    using assms by (simp_all add: rangeOrderOf_def)
  have "set (filter (\<lambda>gate. getFeatureGateChecks fgs gate = Some True) order) =
          {gate. getFeatureGateChecks fgs gate = Some True}"
    using s by auto
  then show ?thesis
    using d by (simp add: getKvFeatureGateList_eq getFeatureGateChecks_True)
qed

text \<open>
  The check of C3 with the keys visited in reverse source order and the GPU and
  hot-plug gates enabled.
\<close>

theorem getKvFeatureGateList_fixed_then_enabled_witness:
  "rangeOrderOf (getFeatureGateChecks (noGates\<lparr>IsGPUAssignmentEnabled := True, IsHotplugVolumesEnabled := True\<rparr>))
     (rev sourceOrder) \<and>
   getKvFeatureGateList (rev sourceOrder) (noGates\<lparr>IsGPUAssignmentEnabled := True, IsHotplugVolumesEnabled := True\<rparr>) =
     [''DataVolumes'', ''SRIOV'', ''LiveMigration'', ''CPUManager'', ''CPUNodeDiscovery'',
      ''Sidecar'', ''Snapshot'', ''GPU'', ''HotplugVolumes''] \<and>
   set (drop (length hardCodeKvFgs)
     (getKvFeatureGateList (rev sourceOrder) (noGates\<lparr>IsGPUAssignmentEnabled := True, IsHotplugVolumesEnabled := True\<rparr>))) =
     {''GPU'', ''HotplugVolumes''}"
proof -
  let ?fgs = "noGates\<lparr>IsGPUAssignmentEnabled := True, IsHotplugVolumesEnabled := True\<rparr>"
  have h: "rangeOrderOf (getFeatureGateChecks ?fgs) (rev sourceOrder)"
    by (simp add: rangeOrderOf_def dom_getFeatureGateChecks) (simp add: sourceOrder_def gate_names)
  have v: "getKvFeatureGateList (rev sourceOrder) ?fgs =
     [''DataVolumes'', ''SRIOV'', ''LiveMigration'', ''CPUManager'', ''CPUNodeDiscovery'',
      ''Sidecar'', ''Snapshot'', ''GPU'', ''HotplugVolumes'']"
    by (simp add: getKvFeatureGateList_def getFeatureGateChecks_def sourceOrder_def noGates_def
        hardCodeKvFgs_def gate_names)
  from getKvFeatureGateList_fixed_then_enabled [OF h]
  have "set (drop (length hardCodeKvFgs) (getKvFeatureGateList (rev sourceOrder) ?fgs)) =
          {gate.
              gate = HotplugVolumesGate \<and> IsHotplugVolumesEnabled ?fgs \<or>
              gate = kvWithHostPassthroughCPU \<and> IsWithHostPassthroughCPUEnabled ?fgs \<or>
              gate = kvWithHostModelCPU \<and> IsWithHostModelCPUEnabled ?fgs \<or>
              gate = SRIOVLiveMigrationGate \<and> IsSRIOVLiveMigrationEnabled ?fgs \<or>
              gate = kvHypervStrictCheck \<and> IsHypervStrictCheckEnabled ?fgs \<or>
              gate = GPUGate \<and> IsGPUAssignmentEnabled ?fgs \<or>
              gate = HostDevicesGate \<and> IsHostDevicesAssignmentEnabled ?fgs}"
    by blast
  also have "\<dots> = {''GPU'', ''HotplugVolumes''}"
    by (auto simp: noGates_def gate_names)
  finally show ?thesis using h v by blast
qed

section \<open>The KubeVirt builder: properties\<close>

lemma take_hardCode: "take (length hardCodeKvFgs) (getKvFeatureGateList order fgs) = hardCodeKvFgs"
  by (simp add: getKvFeatureGateList_eq)

lemma getKvFeatureGateList_nonempty: "0 < length (getKvFeatureGateList order fgs)"
  by (simp add: getKvFeatureGateList_eq hardCodeKvFgs_def)

lemma getKvFeatureGateList_noGates: "getKvFeatureGateList sourceOrder noGates = hardCodeKvFgs"
  by (simp add: getKvFeatureGateList_eq getFeatureGateChecks_True noGates_def)

text \<open>
  Claim C1, as stated, fails. With no conditional gate enabled and an empty environment
  \<open>getKVDevConfig\<close> does not return nil: the resolved gate list always holds the seven
  hard-coded gates, so the test \<open>len(fgs) > 0\<close> succeeds and the object built by
  \<open>NewKubeVirt\<close> carries a developer configuration.
\<close>

theorem getKVDevConfig_no_gates_counterexample:
  "getKVDevConfig (environment Map.empty sourceOrder) (parentOf noGates) =
     Inr (Some \<lparr>FeatureGates =
                  Some [''DataVolumes'', ''SRIOV'', ''LiveMigration'', ''CPUManager'',
                        ''CPUNodeDiscovery'', ''Sidecar'', ''Snapshot''],
                UseEmulation = False\<rparr>) \<and>
   getKVDevConfig (environment Map.empty sourceOrder) (parentOf noGates) \<noteq> Inr None \<and>
   (\<exists>kv. NewKubeVirt (environment Map.empty sourceOrder) (parentOf noGates) [] = Inr kv \<and>
      Cfg_DeveloperConfiguration (Configuration (KV_Spec kv)) \<noteq> None)"
proof -
  have dev: "getKVDevConfig (environment Map.empty sourceOrder) (parentOf noGates) =
     Inr (Some \<lparr>FeatureGates =
                  Some [''DataVolumes'', ''SRIOV'', ''LiveMigration'', ''CPUManager'',
                        ''CPUNodeDiscovery'', ''Sidecar'', ''Snapshot''],
                UseEmulation = False\<rparr>)"
    by (simp add: getKVDevConfig_def environment_def parentOf_def getKvFeatureGateList_noGates
        hardCodeKvFgs_def gate_names)
  have "\<exists>kv. NewKubeVirt (environment Map.empty sourceOrder) (parentOf noGates) [] = Inr kv \<and>
      Cfg_DeveloperConfiguration (Configuration (KV_Spec kv)) \<noteq> None"
    by (simp add: NewKubeVirt_def getKVConfig_def dev) (simp add: environment_def)
  then show ?thesis using dev by simp
qed

text \<open>
  Claim C1, amended. \<open>getKVDevConfig\<close> never returns nil without an error. When the
  emulation variable is absent or blank the block holds the resolved gate list and
  \<open>UseEmulation = false\<close>; when it is a valid boolean the block holds the resolved gate
  list and that boolean; otherwise the parse error is returned. The resolved gate list
  always starts with the hard-coded gates.
\<close>

theorem getKVDevConfig_always_configured:
  shows "getKVDevConfig c hc \<noteq> Inr None \<and>
         (case LookupEnv c kvmEmulationEnvName of
            None \<Rightarrow>
              getKVDevConfig c hc =
                Inr (Some \<lparr>FeatureGates = Some (getKvFeatureGateList (rangeOrder c) (HC_FeatureGates (HC_Spec hc))),
                           UseEmulation = False\<rparr>)
          | Some s \<Rightarrow>
              if TrimSpace s = [] then
                getKVDevConfig c hc =
                  Inr (Some \<lparr>FeatureGates = Some (getKvFeatureGateList (rangeOrder c) (HC_FeatureGates (HC_Spec hc))),
                             UseEmulation = False\<rparr>)
              else
                (case ParseBool (TrimSpace s) of
                   Inl err \<Rightarrow> getKVDevConfig c hc = Inl err
                 | Inr emulation \<Rightarrow>
                     getKVDevConfig c hc =
                       Inr (Some \<lparr>FeatureGates = Some (getKvFeatureGateList (rangeOrder c) (HC_FeatureGates (HC_Spec hc))),
                                  UseEmulation = emulation\<rparr>))) \<and>
         take (length hardCodeKvFgs) (getKvFeatureGateList (rangeOrder c) (HC_FeatureGates (HC_Spec hc))) =
           hardCodeKvFgs"
  using getKvFeatureGateList_nonempty [of "rangeOrder c" "HC_FeatureGates (HC_Spec hc)"]
  by (auto simp: getKVDevConfig_def Let_def take_hardCode split: option.splits sum.splits)

text \<open>
  The amended C1 at an environment that sets the emulation variable to \<open>" true "\<close>.
\<close>

theorem getKVDevConfig_always_configured_witness:
  "getKVDevConfig (environment [kvmEmulationEnvName \<mapsto> '' true ''] sourceOrder) (parentOf noGates) =
     Inr (Some \<lparr>FeatureGates = Some hardCodeKvFgs, UseEmulation = True\<rparr>)"
proof -
  have t: "TrimSpace '' true '' = ''true''" by code_simp
  have p: "ParseBool ''true'' = Inr True" by (simp add: ParseBool_def)
  show ?thesis
    using getKVDevConfig_always_configured
      [of "environment [kvmEmulationEnvName \<mapsto> '' true ''] sourceOrder" "parentOf noGates"]
    by (simp add: environment_def parentOf_def t p getKvFeatureGateList_noGates)
qed

text \<open>
  Claim C7. When the emulation variable is set and its trimmed value is neither empty nor
  one of the twelve spellings \<open>strconv.ParseBool\<close> accepts, \<open>NewKubeVirt\<close> returns the
  parse error of \<open>getKVDevConfig\<close> and no object.
\<close>

theorem NewKubeVirt_invalid_emulation:
  assumes "LookupEnv c kvmEmulationEnvName = Some s"
    and "TrimSpace s \<noteq> []"
    and "TrimSpace s \<notin> set [''1'', ''t'', ''T'', ''true'', ''TRUE'', ''True'',
                              ''0'', ''f'', ''F'', ''false'', ''FALSE'', ''False'']"
  shows "NewKubeVirt c hc opts = Inl (NumError ''ParseBool'' (TrimSpace s)) \<and>
         getKVDevConfig c hc = Inl (NumError ''ParseBool'' (TrimSpace s))"
proof -
  have p: "ParseBool (TrimSpace s) = Inl (NumError ''ParseBool'' (TrimSpace s))"
    using assms(3) by (simp add: ParseBool_def)
  have dev: "getKVDevConfig c hc = Inl (NumError ''ParseBool'' (TrimSpace s))"
    using assms(1,2) by (simp add: getKVDevConfig_def p)
  then show ?thesis by (simp add: NewKubeVirt_def getKVConfig_def)
qed

text \<open>
  The check of C7 with a machine-type override and the emulation variable \<open>" yes "\<close>.
\<close>

theorem NewKubeVirt_invalid_emulation_witness:
  "NewKubeVirt
     (environment [machineTypeEnvName \<mapsto> ''pc-q35-rhel8.3.0'', kvmEmulationEnvName \<mapsto> '' yes ''] sourceOrder)
     (parentOf noGates) [] = Inl (NumError ''ParseBool'' ''yes'')"
proof -
  let ?c = "environment [machineTypeEnvName \<mapsto> ''pc-q35-rhel8.3.0'', kvmEmulationEnvName \<mapsto> '' yes ''] sourceOrder"
  have t: "TrimSpace '' yes '' = ''yes''" by code_simp
  have l: "LookupEnv ?c kvmEmulationEnvName = Some '' yes ''"
    by (simp add: environment_def)
  show ?thesis
    using NewKubeVirt_invalid_emulation [OF l, of "parentOf noGates" "[]"] by (simp add: t)
qed

section \<open>The config map builder: properties\<close>

text \<open>
  Claim C6, as stated, fails. \<open>NewKubeVirtConfigForCR\<close> tests \<open>val != ""\<close> without
  trimming, so the blank value \<open>" "\<close> of the SMBIOS variable (blank in the sense of the
  KubeVirt builder: \<open>strings.TrimSpace\<close> empties it) is stored under the \<open>smbios\<close> key.
\<close>

theorem NewKubeVirtConfigForCR_blank_counterexample:
  "TrimSpace '' '' = [] \<and>
   (\<exists>d. Data (NewKubeVirtConfigForCR (environment [smbiosEnvName \<mapsto> '' ''] sourceOrder)
            (parentOf noGates) ''kubevirt-hyperconverged'') = Some d \<and>
        d SmbiosConfigKey = Some '' '')"
proof -
  have "TrimSpace '' '' = []" by code_simp
  then show ?thesis
    by (simp add: NewKubeVirtConfigForCR_def environment_def env_names key_names)
qed

text \<open>
  Claim C6, amended. The data of the config map is never nil and holds the feature-gates
  key with the comma-joined resolved gate list, the launcher type
  \<open>virt_launcher.process\<close>, the network interface \<open>masquerade\<close>, and each of the three
  override keys exactly when its environment variable is set to a non-empty string, with
  that string as it is; there is no other key.
\<close>

theorem NewKubeVirtConfigForCR_data:
  "\<exists>d. Data (NewKubeVirtConfigForCR c cr namespace) = Some d \<and>
     d FeatureGatesKey =
       Some (Join (getKvFeatureGateList (rangeOrder c) (HC_FeatureGates (HC_Spec cr))) '','') \<and>
     d SELinuxLauncherTypeKey = Some ''virt_launcher.process'' \<and>
     d NetworkInterfaceKey = Some ''masquerade'' \<and>
     d SmbiosConfigKey =
       (case LookupEnv c smbiosEnvName of
          Some val \<Rightarrow> if val \<noteq> [] then Some val else None | None \<Rightarrow> None) \<and>
     d MachineTypeKey =
       (case LookupEnv c machineTypeEnvName of
          Some val \<Rightarrow> if val \<noteq> [] then Some val else None | None \<Rightarrow> None) \<and>
     d UseEmulationKey =
       (case LookupEnv c kvmEmulationEnvName of
          Some val \<Rightarrow> if val \<noteq> [] then Some val else None | None \<Rightarrow> None) \<and>
     dom d \<subseteq> {FeatureGatesKey, SELinuxLauncherTypeKey, NetworkInterfaceKey,
               SmbiosConfigKey, MachineTypeKey, UseEmulationKey}"
  by (auto simp: NewKubeVirtConfigForCR_def Let_def key_names kubevirtDefaultNetworkInterfaceValue_def
      split: option.splits if_splits)

text \<open>
  The amended C6 with an empty SMBIOS variable, a machine type and no emulation variable.
\<close>

theorem NewKubeVirtConfigForCR_data_witness:
  "\<exists>d. Data (NewKubeVirtConfigForCR
           (environment [smbiosEnvName \<mapsto> [], machineTypeEnvName \<mapsto> ''pc-q35''] sourceOrder)
           (parentOf noGates) ''kubevirt-hyperconverged'') = Some d \<and>
        d FeatureGatesKey =
          Some ''DataVolumes,SRIOV,LiveMigration,CPUManager,CPUNodeDiscovery,Sidecar,Snapshot'' \<and>
        d SmbiosConfigKey = None \<and> d MachineTypeKey = Some ''pc-q35'' \<and> d UseEmulationKey = None"
proof -
  let ?c = "environment [smbiosEnvName \<mapsto> [], machineTypeEnvName \<mapsto> ''pc-q35''] sourceOrder"
  have e: "LookupEnv ?c smbiosEnvName = Some []" "LookupEnv ?c machineTypeEnvName = Some ''pc-q35''"
    "LookupEnv ?c kvmEmulationEnvName = None" "rangeOrder ?c = sourceOrder"
    by (simp_all add: environment_def env_names)
  have g: "HC_FeatureGates (HC_Spec (parentOf noGates)) = noGates"
    by (simp add: parentOf_def)
  have j: "Join hardCodeKvFgs '','' =
      ''DataVolumes,SRIOV,LiveMigration,CPUManager,CPUNodeDiscovery,Sidecar,Snapshot''"
    by (simp add: hardCodeKvFgs_def gate_names)
  from NewKubeVirtConfigForCR_data [of ?c "parentOf noGates" "''kubevirt-hyperconverged''"]
  obtain d where
    "Data (NewKubeVirtConfigForCR ?c (parentOf noGates) ''kubevirt-hyperconverged'') = Some d"
    "d FeatureGatesKey = Some (Join (getKvFeatureGateList (rangeOrder ?c) (HC_FeatureGates (HC_Spec (parentOf noGates)))) '','')"
    "d SmbiosConfigKey = (case LookupEnv ?c smbiosEnvName of
          Some val \<Rightarrow> if val \<noteq> [] then Some val else None | None \<Rightarrow> None)"
    "d MachineTypeKey = (case LookupEnv ?c machineTypeEnvName of
          Some val \<Rightarrow> if val \<noteq> [] then Some val else None | None \<Rightarrow> None)"
    "d UseEmulationKey = (case LookupEnv ?c kvmEmulationEnvName of
          Some val \<Rightarrow> if val \<noteq> [] then Some val else None | None \<Rightarrow> None)"
    by blast
  then show ?thesis
    by (simp add: e g j getKvFeatureGateList_noGates)
qed

section \<open>The KubeVirt hook: the cache\<close>

text \<open>
  Claim C9. Once \<open>getFullCr\<close> has returned an object, the hook holds it in its cache and
  every further call returns that object and leaves the hook as it is, whatever the parent
  and the environment of that call: nothing is rebuilt. After \<open>reset\<close> the cache is nil
  and the next call returns what \<open>NewKubeVirt\<close> builds then, and caches it. (A call that
  fails caches nothing.)
\<close>

theorem kubevirtHooks_getFullCr_cached:
  assumes "kubevirtHooks_getFullCr c h hc = (Inr kv, h')"
  shows "cache h' = Some kv \<and>
         (\<forall>c' hc'. kubevirtHooks_getFullCr c' h' hc' = (Inr kv, h')) \<and>
         cache (kubevirtHooks_reset h') = None \<and>
         (\<forall>c' hc'. kubevirtHooks_getFullCr c' (kubevirtHooks_reset h') hc' =
            (case NewKubeVirt c' hc' [] of
               Inl err \<Rightarrow> (Inl err, kubevirtHooks_reset h')
             | Inr fresh \<Rightarrow> (Inr fresh, (kubevirtHooks_reset h')\<lparr>cache := Some fresh\<rparr>)))"
proof -
  have 1: "cache h' = Some kv"
    using assms by (auto simp: kubevirtHooks_getFullCr_def split: option.splits sum.splits)
  then have 2: "\<forall>c' hc'. kubevirtHooks_getFullCr c' h' hc' = (Inr kv, h')"
    by (simp add: kubevirtHooks_getFullCr_def)
  have 3: "cache (kubevirtHooks_reset h') = None"
    by (simp add: kubevirtHooks_reset_def)
  then have 4: "\<forall>c' hc'. kubevirtHooks_getFullCr c' (kubevirtHooks_reset h') hc' =
            (case NewKubeVirt c' hc' [] of
               Inl err \<Rightarrow> (Inl err, kubevirtHooks_reset h')
             | Inr fresh \<Rightarrow> (Inr fresh, (kubevirtHooks_reset h')\<lparr>cache := Some fresh\<rparr>))"
    by (simp add: kubevirtHooks_getFullCr_def)
  show ?thesis using 1 2 3 4 by blast
qed

text \<open>
  The check of C9: a first call with an empty environment, a second call after the
  emulation variable was set (same object), and a call after \<open>reset\<close> (another object).
\<close>

theorem kubevirtHooks_getFullCr_cached_witness:
  "\<exists>kv h'.
     kubevirtHooks_getFullCr (environment Map.empty sourceOrder) \<lparr>cache = None\<rparr> (parentOf noGates) =
       (Inr kv, h') \<and>
     kubevirtHooks_getFullCr (environment [kvmEmulationEnvName \<mapsto> ''true''] sourceOrder) h'
       (parentOf noGates) = (Inr kv, h') \<and>
     fst (kubevirtHooks_getFullCr (environment [kvmEmulationEnvName \<mapsto> ''true''] sourceOrder)
            (kubevirtHooks_reset h') (parentOf noGates)) \<noteq> Inr kv"
proof -
  let ?c0 = "environment Map.empty sourceOrder"
  let ?c1 = "environment [kvmEmulationEnvName \<mapsto> ''true''] sourceOrder"
  let ?p = "parentOf noGates"
  have t: "TrimSpace ''true'' = ''true''" by code_simp
  have d0: "getKVDevConfig ?c0 ?p = Inr (Some \<lparr>FeatureGates = Some hardCodeKvFgs, UseEmulation = False\<rparr>)"
    by (simp add: getKVDevConfig_def environment_def parentOf_def getKvFeatureGateList_noGates
        hardCodeKvFgs_def)
  have d1: "getKVDevConfig ?c1 ?p = Inr (Some \<lparr>FeatureGates = Some hardCodeKvFgs, UseEmulation = True\<rparr>)"
    by (simp add: getKVDevConfig_def environment_def parentOf_def getKvFeatureGateList_noGates
        hardCodeKvFgs_def t ParseBool_def)
  obtain kv0 where k0: "NewKubeVirt ?c0 ?p [] = Inr kv0"
    and u0: "Cfg_DeveloperConfiguration (Configuration (KV_Spec kv0)) =
               Some \<lparr>FeatureGates = Some hardCodeKvFgs, UseEmulation = False\<rparr>"
    by (simp add: NewKubeVirt_def getKVConfig_def d0) (simp add: environment_def)
  obtain kv1 where k1: "NewKubeVirt ?c1 ?p [] = Inr kv1"
    and u1: "Cfg_DeveloperConfiguration (Configuration (KV_Spec kv1)) =
               Some \<lparr>FeatureGates = Some hardCodeKvFgs, UseEmulation = True\<rparr>"
    by (simp add: NewKubeVirt_def getKVConfig_def d1) (simp add: environment_def env_names)
  have ne: "kv1 \<noteq> kv0" using u0 u1 by auto
  have first: "kubevirtHooks_getFullCr ?c0 \<lparr>cache = None\<rparr> ?p = (Inr kv0, \<lparr>cache = Some kv0\<rparr>)"
    by (simp add: kubevirtHooks_getFullCr_def k0)
  note th = kubevirtHooks_getFullCr_cached [OF first]
  have second: "kubevirtHooks_getFullCr ?c1 \<lparr>cache = Some kv0\<rparr> ?p = (Inr kv0, \<lparr>cache = Some kv0\<rparr>)"
    using th by blast
  have "kubevirtHooks_getFullCr ?c1 (kubevirtHooks_reset \<lparr>cache = Some kv0\<rparr>) ?p =
          (case NewKubeVirt ?c1 ?p [] of
             Inl err \<Rightarrow> (Inl err, kubevirtHooks_reset \<lparr>cache = Some kv0\<rparr>)
           | Inr fresh \<Rightarrow> (Inr fresh, (kubevirtHooks_reset \<lparr>cache = Some kv0\<rparr>)\<lparr>cache := Some fresh\<rparr>))"
    using th by blast
  then have third: "fst (kubevirtHooks_getFullCr ?c1 (kubevirtHooks_reset \<lparr>cache = Some kv0\<rparr>) ?p) \<noteq> Inr kv0"
    using ne by (simp add: k1)
  show ?thesis using first second third by blast
qed

section \<open>The priority class hook: delete, then create\<close>




section \<open>The KubeVirt hook: update\<close>

text \<open>
  Claim C8, as stated, fails. The live spec differs from the desired one, but the client
  refuses the update, and \<open>updateCr\<close> reports \<open>changed = false\<close> with the client's error.
\<close>

theorem kubevirtHooks_updateCr_failed_update_counterexample:
  "KV_Spec liveKubeVirt \<noteq> KV_Spec desiredKubeVirt \<and>
   result (kubevirtHooks_updateCr \<lparr>HCOTriggered = True, UpgradeMode = False\<rparr> conflictClient
             (KubeVirtObject liveKubeVirt) (KubeVirtObject desiredKubeVirt)) =
     (False, False, Some (CollaboratorError ''conflict''))"
  by (simp add: kubevirtHooks_updateCr_def liveKubeVirt_def desiredKubeVirt_def conflictClient_def
      NewKubeVirtWithNameOnly_def KubeVirtUninstallStrategyBlockUninstallIfWorkloadsExist_def Let_def)

text \<open>
  Claim C8, amended. \<open>updateCr\<close> reports \<open>changed\<close> exactly when the spec or the labels of
  the live object differ from the desired ones and the update call succeeds. Whenever they
  differ, the live object becomes itself with the labels and the spec of the desired
  object and nothing else changed, that object is sent in a single update call, and the
  error of that call is the error returned. When they do not differ there is no call, the
  live object is untouched and the result is \<open>(false, false, nil)\<close>.
\<close>

theorem kubevirtHooks_updateCr_changed:
  "(let differ = (KV_Spec found \<noteq> KV_Spec virt \<or>
                  Labels (KV_ObjectMeta found) \<noteq> Labels (KV_ObjectMeta virt));
        merged = found\<lparr>KV_ObjectMeta := (KV_ObjectMeta found)\<lparr>Labels := Labels (KV_ObjectMeta virt)\<rparr>,
                       KV_Spec := KV_Spec virt\<rparr>;
        out = kubevirtHooks_updateCr req Client (KubeVirtObject found) (KubeVirtObject virt)
    in (fst (result out) \<longleftrightarrow> differ \<and> Client (Update (KubeVirtObject merged)) = None) \<and>
       (differ \<longrightarrow>
          live out = KubeVirtObject merged \<and>
          calls out = [Update (KubeVirtObject merged)] \<and>
          snd (snd (result out)) = Client (Update (KubeVirtObject merged))) \<and>
       (\<not> differ \<longrightarrow>
          live out = KubeVirtObject found \<and> calls out = [] \<and> result out = (False, False, None)))"
  by (auto simp: kubevirtHooks_updateCr_def DeepCopyLabels_def Let_def split: option.splits)

text \<open>
  The amended C8 on the live and desired KubeVirt above, with a client that accepts the
  update: the status of the live object survives, its spec is the desired one.
\<close>

theorem kubevirtHooks_updateCr_changed_witness:
  "live (kubevirtHooks_updateCr \<lparr>HCOTriggered = True, UpgradeMode = False\<rparr> acceptingClient
           (KubeVirtObject liveKubeVirt) (KubeVirtObject desiredKubeVirt)) =
     KubeVirtObject (liveKubeVirt\<lparr>KV_Spec := KV_Spec desiredKubeVirt\<rparr>) \<and>
   fst (result (kubevirtHooks_updateCr \<lparr>HCOTriggered = True, UpgradeMode = False\<rparr> acceptingClient
           (KubeVirtObject liveKubeVirt) (KubeVirtObject desiredKubeVirt)))"
proof -
  have d: "KV_Spec liveKubeVirt \<noteq> KV_Spec desiredKubeVirt"
    by (simp add: liveKubeVirt_def desiredKubeVirt_def NewKubeVirtWithNameOnly_def
        KubeVirtUninstallStrategyBlockUninstallIfWorkloadsExist_def)
  have l: "Labels (KV_ObjectMeta liveKubeVirt) = Labels (KV_ObjectMeta desiredKubeVirt)"
    by (simp add: liveKubeVirt_def desiredKubeVirt_def)
  show ?thesis
    using d kubevirtHooks_updateCr_changed
      [of liveKubeVirt desiredKubeVirt "\<lparr>HCOTriggered = True, UpgradeMode = False\<rparr>" acceptingClient]
    by (simp add: Let_def l acceptingClient_def)
qed

section \<open>The attribution of a change\<close>

lemma desiredConfigMap_Data:
  "Data desiredConfigMap =
     Some [FeatureGatesKey \<mapsto> ''DataVolumes,SRIOV,LiveMigration,CPUManager,CPUNodeDiscovery,Sidecar,Snapshot'',
           SELinuxLauncherTypeKey \<mapsto> ''virt_launcher.process'',
           NetworkInterfaceKey \<mapsto> ''masquerade'']"
  by (simp add: desiredConfigMap_def NewKubeVirtConfigForCR_def environment_def parentOf_def
      getKvFeatureGateList_noGates hardCodeKvFgs_def gate_names kubevirtDefaultNetworkInterfaceValue_def)

text \<open>
  Claim C2 holds for the KubeVirt hook and for the priority class hook, and the config map
  hook breaks it. Here the request is not triggered by the controller, the feature gates
  of the live config map were edited, the update succeeds, and the second result is
  \<open>false\<close> where the claim has \<open>true\<close>: \<open>updateKvConfigMap\<close> returns \<open>true, false, nil\<close>
  and never reads \<open>HCOTriggered\<close>.
\<close>

theorem kvConfigHooks_updateCr_external_change:
  "\<exists>out. kvConfigHooks_updateCr \<lparr>HCOTriggered = False, UpgradeMode = False\<rparr> acceptingClient
            (ConfigMapObject liveConfigMap) (ConfigMapObject desiredConfigMap) = Inr out \<and>
          calls out \<noteq> [] \<and> result out = (True, False, None)"
  by (simp add: kvConfigHooks_updateCr_def updateData_def mapIndex_def mapAssign_def
      desiredConfigMap_Data liveConfigMap_def key_names updateKvConfigMap_def acceptingClient_def
      Let_def)

text \<open>
  The two other hooks do what the config map hook misses. A hook has detected a change
  when it has issued a client call, and its calls have succeeded when it returns no
  error; then the KubeVirt hook and the priority class hook return \<open>changed = true\<close> and,
  as second result, whether the request was not triggered by the controller.
\<close>

lemma sibling_hooks_attribution:
  "(let out = kubevirtHooks_updateCr req Client exists required
    in calls out \<noteq> [] \<and> snd (snd (result out)) = None \<longrightarrow>
       result out = (True, \<not> HCOTriggered req, None)) \<and>
   (let out = kvPriorityClassHooks_updateCr req Client exists required
    in calls out \<noteq> [] \<and> snd (snd (result out)) = None \<longrightarrow>
       result out = (True, \<not> HCOTriggered req, None))"
proof -
  have kv: "let out = kubevirtHooks_updateCr req Client exists required
    in calls out \<noteq> [] \<and> snd (snd (result out)) = None \<longrightarrow>
       result out = (True, \<not> HCOTriggered req, None)"
    by (cases required; cases exists)
      (auto simp: kubevirtHooks_updateCr_def Let_def split: option.splits)
  have pc: "let out = kvPriorityClassHooks_updateCr req Client exists required
    in calls out \<noteq> [] \<and> snd (snd (result out)) = None \<longrightarrow>
       result out = (True, \<not> HCOTriggered req, None)"
    by (cases required; cases exists)
      (auto simp: kvPriorityClassHooks_updateCr_def Let_def split: option.splits)
  show ?thesis using kv pc by blast
qed

lemma sibling_hooks_attribution_example:
  "result (kubevirtHooks_updateCr \<lparr>HCOTriggered = False, UpgradeMode = False\<rparr> acceptingClient
             (KubeVirtObject liveKubeVirt) (KubeVirtObject desiredKubeVirt)) = (True, True, None) \<and>
   result (kubevirtHooks_updateCr \<lparr>HCOTriggered = True, UpgradeMode = False\<rparr> acceptingClient
             (KubeVirtObject liveKubeVirt) (KubeVirtObject desiredKubeVirt)) = (True, False, None)"
proof -
  have d: "KV_Spec liveKubeVirt \<noteq> KV_Spec desiredKubeVirt"
    by (simp add: liveKubeVirt_def desiredKubeVirt_def NewKubeVirtWithNameOnly_def
        KubeVirtUninstallStrategyBlockUninstallIfWorkloadsExist_def)
  have c: "calls (kubevirtHooks_updateCr r acceptingClient
             (KubeVirtObject liveKubeVirt) (KubeVirtObject desiredKubeVirt)) \<noteq> [] \<and>
           snd (snd (result (kubevirtHooks_updateCr r acceptingClient
             (KubeVirtObject liveKubeVirt) (KubeVirtObject desiredKubeVirt)))) = None" for r
    using d by (simp add: kubevirtHooks_updateCr_def Let_def acceptingClient_def)
  show ?thesis
    using c sibling_hooks_attribution
        [of "\<lparr>HCOTriggered = False, UpgradeMode = False\<rparr>" acceptingClient
          "KubeVirtObject liveKubeVirt" "KubeVirtObject desiredKubeVirt"]
      sibling_hooks_attribution
        [of "\<lparr>HCOTriggered = True, UpgradeMode = False\<rparr>" acceptingClient
          "KubeVirtObject liveKubeVirt" "KubeVirtObject desiredKubeVirt"]
    by (simp add: Let_def)
qed

text \<open>
  The config map hook, whenever it has issued its update and returns no error, returns
  \<open>(true, false, nil)\<close>, whatever \<open>HCOTriggered\<close> is.
\<close>

lemma updateKvConfigMap_result:
  "calls (updateKvConfigMap req Client found) \<noteq> [] \<and>
   (snd (snd (result (updateKvConfigMap req Client found))) = None \<longrightarrow>
      result (updateKvConfigMap req Client found) = (True, False, None))"
  by (simp add: updateKvConfigMap_def split: option.splits)

lemma kvConfigHooks_updateCr_result:
  assumes "kvConfigHooks_updateCr req Client exists required = Inr out"
    and "calls out \<noteq> []" and "snd (snd (result out)) = None"
  shows "result out = (True, False, None)"
proof (cases "\<exists>kc f. required = ConfigMapObject kc \<and> exists = ConfigMapObject f")
  case True
  then obtain kc f where r: "required = ConfigMapObject kc" and e: "exists = ConfigMapObject f"
    by blast
  from assms(1) obtain f' where "out = updateKvConfigMap req Client f' \<or>
      out = \<lparr>calls = [], live = ConfigMapObject f', result = (False, False, None)\<rparr>"
    unfolding r e kvConfigHooks_updateCr_def
    by (auto simp: Let_def split: sum.splits if_splits prod.splits)
  then show ?thesis using assms(2,3) updateKvConfigMap_result [of req Client f'] by auto
next
  case False
  then have "out = \<lparr>calls = [], live = exists,
               result = (False, False, Some (ErrorsNew ''can't convert to ConfigMap''))\<rparr>"
    using assms(1)
    by (cases required; cases exists) (auto simp: kvConfigHooks_updateCr_def)
  then show ?thesis using assms(2) by simp
qed

section \<open>The config map hook: forcing on upgrade, and the nil map\<close>

lemma mapIndex_entry: "mapIndex m k = (case mapEntry m k of None \<Rightarrow> [] | Some v \<Rightarrow> v)"
  by (simp add: mapIndex_def mapEntry_def split: option.splits)

lemma mapHas_entry: "mapHas m k \<longleftrightarrow> mapEntry m k \<noteq> None"
  by (simp add: mapHas_def mapEntry_def split: option.splits)

lemma forceDefaultValues_Inr:
  assumes "forceDefaultValues req found kc k = Inr (found', b)"
  shows "mapIndex (Data found') k = mapIndex (Data kc) k"
    and "k' \<noteq> k \<Longrightarrow> mapEntry (Data found') k' = mapEntry (Data found) k'"
    and "Data found' = None \<longleftrightarrow> Data found = None"
    and "CM_ObjectMeta found' = CM_ObjectMeta found"
  using assms
  by (auto simp: forceDefaultValues_def mapAssign_def mapIndex_def mapEntry_def
      split: if_splits option.splits)

lemma forceDefaultValues_total:
  "Data found \<noteq> None \<Longrightarrow> \<exists>found' b. forceDefaultValues req found kc k = Inr (found', b)"
  by (auto simp: forceDefaultValues_def mapAssign_def)

lemma forceDefaultKeysLoop_Inr:
  assumes "forceDefaultKeysLoop req found kc ks changed = Inr (found', b)"
  shows "(\<forall>k\<in>set ks. mapIndex (Data found') k = mapIndex (Data kc) k) \<and>
         (\<forall>k'. k' \<notin> set ks \<longrightarrow> mapEntry (Data found') k' = mapEntry (Data found) k') \<and>
         (Data found' = None \<longleftrightarrow> Data found = None) \<and>
         CM_ObjectMeta found' = CM_ObjectMeta found"
  using assms
proof (induction ks arbitrary: found changed)
  case Nil
  then show ?case by simp
next
  case (Cons k ks)
  from Cons.prems obtain found1 forced where
    step: "forceDefaultValues req found kc k = Inr (found1, forced)"
    and rest: "forceDefaultKeysLoop req found1 kc ks (forced \<or> changed) = Inr (found', b)"
    by (auto split: sum.splits prod.splits)
  note s = forceDefaultValues_Inr [OF step]
  note ih = Cons.IH [OF rest]
  have "mapIndex (Data found') k = mapIndex (Data kc) k"
  proof (cases "k \<in> set ks")
    case True
    then show ?thesis using ih by blast
  next
    case False
    then have "mapEntry (Data found') k = mapEntry (Data found1) k" using ih by blast
    then have "mapIndex (Data found') k = mapIndex (Data found1) k" by (simp add: mapIndex_entry)
    then show ?thesis using s(1) by simp
  qed
  moreover have "\<forall>k'. k' \<notin> set (k # ks) \<longrightarrow> mapEntry (Data found') k' = mapEntry (Data found) k'"
    using ih s(2) by auto
  ultimately show ?case using ih s(3,4) by auto
qed

lemma forceDefaultKeysLoop_total:
  "Data found \<noteq> None \<Longrightarrow> \<exists>found' b. forceDefaultKeysLoop req found kc ks changed = Inr (found', b)"
proof (induction ks arbitrary: found changed)
  case Nil
  then show ?case by simp
next
  case (Cons k ks)
  from forceDefaultValues_total [OF Cons.prems] obtain found1 forced where
    step: "forceDefaultValues req found kc k = Inr (found1, forced)" by blast
  then have "Data found1 \<noteq> None" using forceDefaultValues_Inr(3) [OF step] Cons.prems by simp
  from Cons.IH [OF this] show ?case using step by simp
qed

lemma removeOldKeys_effect:
  assumes "removeOldKeys req found = (found', b)"
  shows "mapEntry (Data found') MigrationsConfigKey = None"
    and "k \<noteq> MigrationsConfigKey \<Longrightarrow> mapEntry (Data found') k = mapEntry (Data found) k"
    and "Data found' = None \<longleftrightarrow> Data found = None"
    and "CM_ObjectMeta found' = CM_ObjectMeta found"
  using assms
  by (auto simp: removeOldKeys_def mapHas_def mapDelete_def mapEntry_def
      split: if_splits option.splits)

lemma updateDataOnUpgrade_Inr:
  assumes "updateDataOnUpgrade req found kc = Inr (found', b)"
  shows "\<forall>k\<in>{SmbiosConfigKey, MachineTypeKey, SELinuxLauncherTypeKey, UseEmulationKey}.
           mapIndex (Data found') k = mapIndex (Data kc) k"
    and "mapEntry (Data found') MigrationsConfigKey = None"
    and "\<forall>k. k \<notin> {SmbiosConfigKey, MachineTypeKey, SELinuxLauncherTypeKey, UseEmulationKey,
                     MigrationsConfigKey} \<longrightarrow>
           mapEntry (Data found') k = mapEntry (Data found) k"
    and "Data found' = None \<longleftrightarrow> Data found = None"
proof -
  from assms obtain found1 forced removed where
    f: "forceDefaultKeys req found kc = Inr (found1, forced)"
    and r: "removeOldKeys req found1 = (found', removed)"
    by (auto simp: updateDataOnUpgrade_def Let_def split: sum.splits prod.splits)
  note l = forceDefaultKeysLoop_Inr [OF f [unfolded forceDefaultKeys_def]]
  note e = removeOldKeys_effect [OF r]
  have ne: "\<forall>k\<in>{SmbiosConfigKey, MachineTypeKey, SELinuxLauncherTypeKey, UseEmulationKey}.
              k \<noteq> MigrationsConfigKey"
    by (simp add: key_names)
  show "\<forall>k\<in>{SmbiosConfigKey, MachineTypeKey, SELinuxLauncherTypeKey, UseEmulationKey}.
           mapIndex (Data found') k = mapIndex (Data kc) k"
  proof
    fix k assume k: "k \<in> {SmbiosConfigKey, MachineTypeKey, SELinuxLauncherTypeKey, UseEmulationKey}"
    then have "k \<noteq> MigrationsConfigKey" using ne by blast
    then have "mapIndex (Data found') k = mapIndex (Data found1) k"
      using e(2) by (simp add: mapIndex_entry)
    moreover have "mapIndex (Data found1) k = mapIndex (Data kc) k" using l k by auto
    ultimately show "mapIndex (Data found') k = mapIndex (Data kc) k" by simp
  qed
  show "mapEntry (Data found') MigrationsConfigKey = None" by (rule e(1))
  show "\<forall>k. k \<notin> {SmbiosConfigKey, MachineTypeKey, SELinuxLauncherTypeKey, UseEmulationKey,
                     MigrationsConfigKey} \<longrightarrow>
           mapEntry (Data found') k = mapEntry (Data found) k"
    using l e(2) by simp
  show "Data found' = None \<longleftrightarrow> Data found = None" using l e(3) by simp
qed

lemma updateDataOnUpgrade_total:
  assumes "Data found \<noteq> None"
  shows "\<exists>found' b. updateDataOnUpgrade req found kc = Inr (found', b)"
proof -
  from forceDefaultKeysLoop_total [OF assms] obtain found1 forced where
    "forceDefaultKeys req found kc = Inr (found1, forced)"
    unfolding forceDefaultKeys_def by blast
  then show ?thesis
    by (auto simp: updateDataOnUpgrade_def Let_def split: prod.splits)
qed

lemma updateData_Inr:
  assumes "updateData found kc = Inr (found', b)"
  shows "mapIndex (Data found') FeatureGatesKey = mapIndex (Data kc) FeatureGatesKey"
    and "k \<noteq> FeatureGatesKey \<Longrightarrow> mapEntry (Data found') k = mapEntry (Data found) k"
    and "Data found' = None \<longleftrightarrow> Data found = None"
  using assms
  by (auto simp: updateData_def mapAssign_def mapIndex_def mapEntry_def
      split: if_splits option.splits)

lemma updateData_total:
  "Data found \<noteq> None \<Longrightarrow> \<exists>found' b. updateData found kc = Inr (found', b)"
  by (auto simp: updateData_def mapAssign_def)

lemma updateData_nil:
  "Data found = None \<Longrightarrow> mapIndex (Data kc) FeatureGatesKey \<noteq> [] \<Longrightarrow>
   updateData found kc = Inl AssignToNilMap"
  by (simp add: updateData_def mapAssign_def mapIndex_def)

text \<open>The shape of a run of the config map hook that returns.\<close>

lemma kvConfigHooks_updateCr_Inr:
  assumes "kvConfigHooks_updateCr req Client (ConfigMapObject found) (ConfigMapObject kc) = Inr out"
  obtains found1 c1 found2 c2 found3 where
    "if UpgradeMode req then updateDataOnUpgrade req found kc = Inr (found1, c1) else found1 = found"
    and "updateData found1 kc = Inr (found2, c2)"
    and "Data found3 = Data found2"
    and "live out = ConfigMapObject found3"
proof -
  from assms obtain found1 c1 where
    1: "(if UpgradeMode req then updateDataOnUpgrade req found kc else Inr (found, False)) = Inr (found1, c1)"
    by (auto simp: kvConfigHooks_updateCr_def split: sum.splits prod.splits)
  from assms 1 obtain found2 c2 where 2: "updateData found1 kc = Inr (found2, c2)"
    by (auto simp: kvConfigHooks_updateCr_def split: sum.splits prod.splits)
  define found3 where
    "found3 =
       (if Labels (CM_ObjectMeta found2) \<noteq> Labels (CM_ObjectMeta kc)
        then found2\<lparr>CM_ObjectMeta := DeepCopyLabels (CM_ObjectMeta kc) (CM_ObjectMeta found2)\<rparr>
        else found2)"
  have "Data found3 = Data found2" by (simp add: found3_def)
  moreover have "live out = ConfigMapObject found3"
    using assms 1 2
    by (auto simp: kvConfigHooks_updateCr_def Let_def updateKvConfigMap_def found3_def
        split: if_splits option.splits)
  moreover have "if UpgradeMode req then updateDataOnUpgrade req found kc = Inr (found1, c1)
                 else found1 = found"
    using 1 by (auto split: if_splits)
  ultimately show ?thesis using that 2 by blast
qed

lemma kvConfigHooks_updateCr_total:
  assumes "Data found \<noteq> None"
  shows "\<exists>out. kvConfigHooks_updateCr req Client (ConfigMapObject found) (ConfigMapObject kc) = Inr out"
proof -
  obtain found1 c1 where
    1: "(if UpgradeMode req then updateDataOnUpgrade req found kc else Inr (found, False)) = Inr (found1, c1)"
    using updateDataOnUpgrade_total [OF assms, of req kc] by (cases "UpgradeMode req") auto
  have "Data found1 \<noteq> None"
    using 1 assms updateDataOnUpgrade_Inr(4) [of req found kc found1 c1]
    by (auto split: if_splits)
  from updateData_total [OF this] obtain found2 c2 where
    2: "updateData found1 kc = Inr (found2, c2)" by blast
  show ?thesis
    using 1 2 by (simp add: kvConfigHooks_updateCr_def Let_def)
qed

text \<open>
  Claim C5. With a live config map whose data is not nil, \<open>updateCr\<close> returns, and
  whenever it returns: the feature-gates key reads as in the desired config map; outside
  upgrade mode every other key is as before, in presence and in value (so the launcher
  type is untouched and the migrations key stays); in upgrade mode the smbios,
  machine-type, selinuxLauncherType and debug.useEmulation keys read as in the desired
  config map, the migrations key is absent, and all remaining keys are as before. A key
  reads as \<open>found.Data[k]\<close> does: forcing a key that the desired config map lacks stores the
  empty string.
\<close>

theorem kvConfigHooks_updateCr_upgrade_only:
  "(Data found \<noteq> None \<longrightarrow>
      (\<exists>out. kvConfigHooks_updateCr req Client (ConfigMapObject found) (ConfigMapObject kubevirtConfig) = Inr out)) \<and>
   (\<forall>out. kvConfigHooks_updateCr req Client (ConfigMapObject found) (ConfigMapObject kubevirtConfig) = Inr out \<longrightarrow>
      (\<exists>found'. live out = ConfigMapObject found' \<and>
         mapIndex (Data found') FeatureGatesKey = mapIndex (Data kubevirtConfig) FeatureGatesKey \<and>
         (\<not> UpgradeMode req \<longrightarrow>
            (\<forall>k. k \<noteq> FeatureGatesKey \<longrightarrow> mapEntry (Data found') k = mapEntry (Data found) k)) \<and>
         (UpgradeMode req \<longrightarrow>
            (\<forall>k\<in>{SmbiosConfigKey, MachineTypeKey, SELinuxLauncherTypeKey, UseEmulationKey}.
               mapIndex (Data found') k = mapIndex (Data kubevirtConfig) k) \<and>
            mapEntry (Data found') MigrationsConfigKey = None \<and>
            (\<forall>k. k \<notin> {SmbiosConfigKey, MachineTypeKey, SELinuxLauncherTypeKey, UseEmulationKey,
                         MigrationsConfigKey, FeatureGatesKey} \<longrightarrow>
               mapEntry (Data found') k = mapEntry (Data found) k))))"
proof (intro conjI allI impI)
  assume "Data found \<noteq> None"
  then show "\<exists>out. kvConfigHooks_updateCr req Client (ConfigMapObject found) (ConfigMapObject kubevirtConfig) = Inr out"
    by (rule kvConfigHooks_updateCr_total)
next
  fix out
  assume run: "kvConfigHooks_updateCr req Client (ConfigMapObject found) (ConfigMapObject kubevirtConfig) = Inr out"
  from run obtain found1 c1 found2 c2 found3 where
    1: "if UpgradeMode req then updateDataOnUpgrade req found kubevirtConfig = Inr (found1, c1)
        else found1 = found"
    and 2: "updateData found1 kubevirtConfig = Inr (found2, c2)"
    and 3: "Data found3 = Data found2"
    and 4: "live out = ConfigMapObject found3"
    by (rule kvConfigHooks_updateCr_Inr)
  note u = updateData_Inr [OF 2]
  have fg: "FeatureGatesKey \<notin> {SmbiosConfigKey, MachineTypeKey, SELinuxLauncherTypeKey,
               UseEmulationKey, MigrationsConfigKey}"
    by (simp add: key_names)
  have a: "mapIndex (Data found3) FeatureGatesKey = mapIndex (Data kubevirtConfig) FeatureGatesKey"
    using u(1) 3 by simp
  have b: "\<forall>k. k \<noteq> FeatureGatesKey \<longrightarrow> mapEntry (Data found3) k = mapEntry (Data found) k"
    if "\<not> UpgradeMode req"
    using that 1 u(2) 3 by simp
  have c: "(\<forall>k\<in>{SmbiosConfigKey, MachineTypeKey, SELinuxLauncherTypeKey, UseEmulationKey}.
               mapIndex (Data found3) k = mapIndex (Data kubevirtConfig) k) \<and>
            mapEntry (Data found3) MigrationsConfigKey = None \<and>
            (\<forall>k. k \<notin> {SmbiosConfigKey, MachineTypeKey, SELinuxLauncherTypeKey, UseEmulationKey,
                         MigrationsConfigKey, FeatureGatesKey} \<longrightarrow>
               mapEntry (Data found3) k = mapEntry (Data found) k)"
    if up: "UpgradeMode req"
  proof -
    from 1 up have o: "updateDataOnUpgrade req found kubevirtConfig = Inr (found1, c1)" by simp
    note d = updateDataOnUpgrade_Inr [OF o]
    have "\<forall>k\<in>{SmbiosConfigKey, MachineTypeKey, SELinuxLauncherTypeKey, UseEmulationKey}.
               mapIndex (Data found3) k = mapIndex (Data kubevirtConfig) k"
    proof
      fix k assume k: "k \<in> {SmbiosConfigKey, MachineTypeKey, SELinuxLauncherTypeKey, UseEmulationKey}"
      then have "k \<noteq> FeatureGatesKey" using fg by auto
      then have "mapIndex (Data found3) k = mapIndex (Data found1) k"
        using u(2) 3 by (simp add: mapIndex_entry)
      then show "mapIndex (Data found3) k = mapIndex (Data kubevirtConfig) k" using d(1) k by auto
    qed
    moreover have "mapEntry (Data found3) MigrationsConfigKey = None"
      using u(2) [of MigrationsConfigKey] 3 d(2) fg by auto
    moreover have "\<forall>k. k \<notin> {SmbiosConfigKey, MachineTypeKey, SELinuxLauncherTypeKey, UseEmulationKey,
                         MigrationsConfigKey, FeatureGatesKey} \<longrightarrow>
               mapEntry (Data found3) k = mapEntry (Data found) k"
      using u(2) 3 d(3) by simp
    ultimately show ?thesis by blast
  qed
  show "\<exists>found'. live out = ConfigMapObject found' \<and>
         mapIndex (Data found') FeatureGatesKey = mapIndex (Data kubevirtConfig) FeatureGatesKey \<and>
         (\<not> UpgradeMode req \<longrightarrow>
            (\<forall>k. k \<noteq> FeatureGatesKey \<longrightarrow> mapEntry (Data found') k = mapEntry (Data found) k)) \<and>
         (UpgradeMode req \<longrightarrow>
            (\<forall>k\<in>{SmbiosConfigKey, MachineTypeKey, SELinuxLauncherTypeKey, UseEmulationKey}.
               mapIndex (Data found') k = mapIndex (Data kubevirtConfig) k) \<and>
            mapEntry (Data found') MigrationsConfigKey = None \<and>
            (\<forall>k. k \<notin> {SmbiosConfigKey, MachineTypeKey, SELinuxLauncherTypeKey, UseEmulationKey,
                         MigrationsConfigKey, FeatureGatesKey} \<longrightarrow>
               mapEntry (Data found') k = mapEntry (Data found) k))"
    using 4 a b c by blast
qed


lemma liveConfigMap_Data:
  "Data liveConfigMap =
     Some [FeatureGatesKey \<mapsto> ''DataVolumes'',
           SELinuxLauncherTypeKey \<mapsto> ''spc_t'',
           MigrationsConfigKey \<mapsto> ''parallelMigrationsPerCluster: 5'']"
  by (simp add: liveConfigMap_def)

text \<open>
  The check of C5 on the edited live config map above, in upgrade mode (the launcher type
  is forced and the migrations key removed) and outside of it (both are left as they are).
\<close>

theorem kvConfigHooks_updateCr_upgrade_only_witness:
  "(\<exists>out found'.
      kvConfigHooks_updateCr \<lparr>HCOTriggered = True, UpgradeMode = True\<rparr> acceptingClient
        (ConfigMapObject liveConfigMap) (ConfigMapObject desiredConfigMap) = Inr out \<and>
      live out = ConfigMapObject found' \<and>
      mapIndex (Data found') SELinuxLauncherTypeKey = ''virt_launcher.process'' \<and>
      mapEntry (Data found') MigrationsConfigKey = None) \<and>
   (\<exists>out found'.
      kvConfigHooks_updateCr \<lparr>HCOTriggered = True, UpgradeMode = False\<rparr> acceptingClient
        (ConfigMapObject liveConfigMap) (ConfigMapObject desiredConfigMap) = Inr out \<and>
      live out = ConfigMapObject found' \<and>
      mapEntry (Data found') SELinuxLauncherTypeKey = Some ''spc_t'' \<and>
      mapEntry (Data found') MigrationsConfigKey = Some ''parallelMigrationsPerCluster: 5'')"
proof -
  have n: "Data liveConfigMap \<noteq> None" by (simp add: liveConfigMap_Data)
  have s: "mapIndex (Data desiredConfigMap) SELinuxLauncherTypeKey = ''virt_launcher.process''"
    by (simp add: desiredConfigMap_Data mapIndex_def key_names)
  have l: "mapEntry (Data liveConfigMap) SELinuxLauncherTypeKey = Some ''spc_t''"
    "mapEntry (Data liveConfigMap) MigrationsConfigKey = Some ''parallelMigrationsPerCluster: 5''"
    by (simp_all add: liveConfigMap_Data mapEntry_def key_names)
  have k: "SELinuxLauncherTypeKey \<noteq> FeatureGatesKey" "MigrationsConfigKey \<noteq> FeatureGatesKey"
    by (simp_all add: key_names)
  note up = kvConfigHooks_updateCr_upgrade_only
    [of liveConfigMap "\<lparr>HCOTriggered = True, UpgradeMode = True\<rparr>" acceptingClient desiredConfigMap]
  note steady = kvConfigHooks_updateCr_upgrade_only
    [of liveConfigMap "\<lparr>HCOTriggered = True, UpgradeMode = False\<rparr>" acceptingClient desiredConfigMap]
  from up n obtain out1 where o1:
    "kvConfigHooks_updateCr \<lparr>HCOTriggered = True, UpgradeMode = True\<rparr> acceptingClient
        (ConfigMapObject liveConfigMap) (ConfigMapObject desiredConfigMap) = Inr out1"
    by blast
  with up obtain found1 where f1: "live out1 = ConfigMapObject found1"
    "mapIndex (Data found1) SELinuxLauncherTypeKey = mapIndex (Data desiredConfigMap) SELinuxLauncherTypeKey"
    "mapEntry (Data found1) MigrationsConfigKey = None"
    by auto
  from steady n obtain out2 where o2:
    "kvConfigHooks_updateCr \<lparr>HCOTriggered = True, UpgradeMode = False\<rparr> acceptingClient
        (ConfigMapObject liveConfigMap) (ConfigMapObject desiredConfigMap) = Inr out2"
    by blast
  with steady k obtain found2 where f2: "live out2 = ConfigMapObject found2"
    "mapEntry (Data found2) SELinuxLauncherTypeKey = mapEntry (Data liveConfigMap) SELinuxLauncherTypeKey"
    "mapEntry (Data found2) MigrationsConfigKey = mapEntry (Data liveConfigMap) MigrationsConfigKey"
    by auto
  show ?thesis using o1 f1 o2 f2 s l by auto
qed

lemma Join_Cons_nonempty: "x \<noteq> [] \<Longrightarrow> Join (x # xs) sep \<noteq> []"
  by (cases xs) simp_all

lemma NewKubeVirtConfigForCR_featureGates:
  "mapIndex (Data (NewKubeVirtConfigForCR c cr namespace)) FeatureGatesKey =
     Join (getKvFeatureGateList (rangeOrder c) (HC_FeatureGates (HC_Spec cr))) '',''"
  by (simp add: NewKubeVirtConfigForCR_def Let_def mapIndex_def key_names
      split: option.splits)

lemma desired_featureGates_nonempty:
  "mapIndex (Data (NewKubeVirtConfigForCR c cr namespace)) FeatureGatesKey \<noteq> []"
proof -
  have "getKvFeatureGateList (rangeOrder c) (HC_FeatureGates (HC_Spec cr)) =
          ''DataVolumes'' # tl (getKvFeatureGateList (rangeOrder c) (HC_FeatureGates (HC_Spec cr)))"
    by (simp add: getKvFeatureGateList_eq hardCodeKvFgs_def gate_names)
  then have "Join (getKvFeatureGateList (rangeOrder c) (HC_FeatureGates (HC_Spec cr))) '','' \<noteq> []"
    using Join_Cons_nonempty [of "''DataVolumes''"] by (metis list.distinct(1))
  then show ?thesis by (simp add: NewKubeVirtConfigForCR_featureGates)
qed

lemma kvConfigHooks_updateCr_nil:
  assumes "Data found = None" and "mapIndex (Data required) FeatureGatesKey \<noteq> []"
  shows "kvConfigHooks_updateCr req Client (ConfigMapObject found) (ConfigMapObject required) =
           Inl AssignToNilMap"
proof (cases "if UpgradeMode req then updateDataOnUpgrade req found required else Inr (found, False)")
  case (Inl p)
  then show ?thesis by (cases p) (simp add: kvConfigHooks_updateCr_def)
next
  case (Inr r)
  obtain found1 c1 where r: "r = (found1, c1)" by (cases r)
  have "Data found1 = None"
    using Inr r assms(1) updateDataOnUpgrade_Inr(4) [of req found required found1 c1]
    by (auto split: if_splits)
  then have "updateData found1 required = Inl AssignToNilMap"
    using assms(2) by (rule updateData_nil)
  then show ?thesis using Inr r by (simp add: kvConfigHooks_updateCr_def)
qed

text \<open>
  Claim C10. When the data of the live config map is nil and the feature-gates value of
  the desired one is not empty, \<open>updateCr\<close> panics with an assignment to an entry of a nil
  map: in \<open>forceDefaultValues\<close> during an upgrade, or at the latest in \<open>updateData\<close>. The
  feature-gates value that \<open>NewKubeVirtConfigForCR\<close> builds is never empty, so with a nil
  live map and a desired config map from the builder the hook always panics. With live
  data that is not nil it never does.
\<close>

theorem kvConfigHooks_updateCr_nil_data_panics:
  "(Data found = None \<and> mapIndex (Data required) FeatureGatesKey \<noteq> [] \<longrightarrow>
      kvConfigHooks_updateCr req Client (ConfigMapObject found) (ConfigMapObject required) =
        Inl AssignToNilMap) \<and>
   mapIndex (Data (NewKubeVirtConfigForCR c cr namespace)) FeatureGatesKey \<noteq> [] \<and>
   (Data found = None \<longrightarrow>
      kvConfigHooks_updateCr req Client (ConfigMapObject found)
        (ConfigMapObject (NewKubeVirtConfigForCR c cr namespace)) = Inl AssignToNilMap) \<and>
   (Data found \<noteq> None \<longrightarrow>
      (\<exists>out. kvConfigHooks_updateCr req Client (ConfigMapObject found) (ConfigMapObject required) =
         Inr out))"
  using kvConfigHooks_updateCr_nil desired_featureGates_nonempty kvConfigHooks_updateCr_total
  by blast

text \<open>
  The check of C10 on the desired config map above and a live one without data, in and
  out of upgrade mode.
\<close>

theorem kvConfigHooks_updateCr_nil_data_panics_witness:
  "Data (desiredConfigMap\<lparr>Data := None\<rparr>) = None \<and>
   kvConfigHooks_updateCr \<lparr>HCOTriggered = True, UpgradeMode = False\<rparr> acceptingClient
     (ConfigMapObject (desiredConfigMap\<lparr>Data := None\<rparr>)) (ConfigMapObject desiredConfigMap) =
     Inl AssignToNilMap \<and>
   kvConfigHooks_updateCr \<lparr>HCOTriggered = True, UpgradeMode = True\<rparr> acceptingClient
     (ConfigMapObject (desiredConfigMap\<lparr>Data := None\<rparr>)) (ConfigMapObject desiredConfigMap) =
     Inl AssignToNilMap"
proof -
  have n: "Data (desiredConfigMap\<lparr>Data := None\<rparr>) = None" by simp
  show ?thesis
    using n
      kvConfigHooks_updateCr_nil_data_panics
        [of "desiredConfigMap\<lparr>Data := None\<rparr>" desiredConfigMap
            "\<lparr>HCOTriggered = True, UpgradeMode = False\<rparr>" acceptingClient
            "environment Map.empty sourceOrder" "parentOf noGates" "''kubevirt-hyperconverged''"]
      kvConfigHooks_updateCr_nil_data_panics
        [of "desiredConfigMap\<lparr>Data := None\<rparr>" desiredConfigMap
            "\<lparr>HCOTriggered = True, UpgradeMode = True\<rparr>" acceptingClient
            "environment Map.empty sourceOrder" "parentOf noGates" "''kubevirt-hyperconverged''"]
    by (simp add: desiredConfigMap_def)
qed

end
